theory Spec2Isabelle
  imports Complex_Main "HOL-Library.AList"
begin

section \<open>Python values, exceptions and the builtins the models rely on\<close>

text \<open>
  The two modules \<^verbatim>\<open>models.py\<close> and \<^verbatim>\<open>extract.py\<close> are embedded as HOL functions.
  An exception is a value \<open>Inl e\<close> of a sum type; a normal return is \<open>Inr v\<close>.
\<close>

datatype error = ValueError | TypeError | KeyError | IndexError | AttributeError | NameError

text \<open>
  A Python \<^verbatim>\<open>float\<close>. \<open>Fin q\<close> is a finite value, kept as the exact rational the decimal
  text denotes (rounding to 53 bits and the sign of zero are outside the model); the two
  infinities and NaN are separate values. Equality here is identity of the value, so
  \<open>NaN = NaN\<close> holds in the model although Python's \<^verbatim>\<open>==\<close> on NaN is false.
\<close>

datatype pyfloat = Fin rat | PosInf | NegInf | NaN

text \<open>
  The Python values that reach the constructors and leave the serializers: \<^verbatim>\<open>None\<close>,
  booleans, strings, floats, lists and dictionaries with string keys. A dictionary is an
  association list with distinct keys in insertion order.
\<close>

datatype pyval =
    PNone
  | PBool bool
  | PStr string
  | PFloat pyfloat
  | PDict "(string \<times> pyval) list"
  | PList "pyval list"

text \<open>\<^verbatim>\<open>bool(x)\<close>: the truth value of a Python object.\<close>

fun truthy :: "pyval \<Rightarrow> bool" where
  "truthy PNone = False"
| "truthy (PBool b) = b"
| "truthy (PStr s) = (s \<noteq> [])"
| "truthy (PFloat f) = (f \<noteq> Fin 0)"
| "truthy (PDict d) = (d \<noteq> [])"
| "truthy (PList l) = (l \<noteq> [])"

text \<open>Sequencing of computations that may raise.\<close>

definition bind_r :: "error + 'a \<Rightarrow> ('a \<Rightarrow> error + 'b) \<Rightarrow> error + 'b" where
  "bind_r m f = (case m of Inl e \<Rightarrow> Inl e | Inr v \<Rightarrow> f v)"

subsection \<open>\<^verbatim>\<open>float(str)\<close>\<close>

text \<open>
  The grammar \<^verbatim>\<open>float\<close> accepts, after stripping surrounding whitespace:
  an optional sign, then \<^verbatim>\<open>nan\<close>, \<^verbatim>\<open>inf\<close> or \<^verbatim>\<open>infinity\<close> in any letter case, or a decimal
  number \<^verbatim>\<open>[digitpart] "." digitpart | digitpart ["."]\<close> with an optional exponent
  \<^verbatim>\<open>("e" | "E") [sign] digitpart\<close>, where \<^verbatim>\<open>digitpart\<close> is \<^verbatim>\<open>digit (["_"] digit)*\<close>.
  Anything else raises \<^verbatim>\<open>ValueError\<close>. The whitespace \<^verbatim>\<open>float\<close> strips from ASCII text is the
  space and the characters 9 to 13 (the separators 28 to 31, which \<^verbatim>\<open>str.strip\<close> removes, are
  not stripped). Characters are bytes here, so only ASCII digits and ASCII whitespace are
  recognised.
\<close>

definition is_space :: "char \<Rightarrow> bool" where
  "is_space c = (let n = (of_char c :: nat) in (9 \<le> n \<and> n \<le> 13) \<or> n = 32)"

definition is_digit :: "char \<Rightarrow> bool" where
  "is_digit c = (let n = (of_char c :: nat) in 48 \<le> n \<and> n \<le> 57)"

definition digit_val :: "char \<Rightarrow> nat" where
  "digit_val c = of_char c - 48"

definition lower :: "char \<Rightarrow> char" where
  "lower c = (let n = (of_char c :: nat)
              in if 65 \<le> n \<and> n \<le> 90 then ''abcdefghijklmnopqrstuvwxyz'' ! (n - 65) else c)"

definition strip :: "string \<Rightarrow> string" where
  "strip s = rev (dropWhile is_space (rev (dropWhile is_space s)))"

definition sign :: "string \<Rightarrow> bool \<times> string" where
  "sign s = (case s of
       [] \<Rightarrow> (False, [])
     | c # cs \<Rightarrow> if c = CHR ''-'' then (True, cs)
                else if c = CHR ''+'' then (False, cs)
                else (False, s))"

text \<open>The tail \<^verbatim>\<open>(["_"] digit)*\<close> of a digit part: the digits read and the rest.\<close>

fun digit_run :: "string \<Rightarrow> string \<times> string" where
  "digit_run [] = ([], [])"
| "digit_run [c] = (if is_digit c then ([c], []) else ([], [c]))"
| "digit_run (c # d # cs) =
     (if is_digit c then (case digit_run (d # cs) of (ds, r) \<Rightarrow> (c # ds, r))
      else if c = CHR ''_'' \<and> is_digit d then (case digit_run cs of (ds, r) \<Rightarrow> (d # ds, r))
      else ([], c # d # cs))"

definition digitpart :: "string \<Rightarrow> (string \<times> string) option" where
  "digitpart s = (case s of
       [] \<Rightarrow> None
     | c # cs \<Rightarrow> if is_digit c then (case digit_run cs of (ds, r) \<Rightarrow> Some (c # ds, r))
                else None)"

text \<open>A number: the digits before the point, the digits after it, and the rest.\<close>

definition number :: "string \<Rightarrow> (string \<times> string \<times> string) option" where
  "number s = (case digitpart s of
       Some (ip, r) \<Rightarrow>
         (if r \<noteq> [] \<and> hd r = CHR ''.'' then
            (case digitpart (tl r) of
               Some (fp, r') \<Rightarrow> Some (ip, fp, r')
             | None \<Rightarrow> Some (ip, [], tl r))
          else Some (ip, [], r))
     | None \<Rightarrow>
         (if s \<noteq> [] \<and> hd s = CHR ''.'' then
            (case digitpart (tl s) of
               Some (fp, r') \<Rightarrow> Some ([], fp, r')
             | None \<Rightarrow> None)
          else None))"

definition dec_value :: "string \<Rightarrow> nat" where
  "dec_value ds = foldl (\<lambda>a c. 10 * a + digit_val c) 0 ds"

text \<open>An optional exponent: its value (0 when absent) and the rest; \<open>None\<close> when malformed.\<close>

definition exponent :: "string \<Rightarrow> (int \<times> string) option" where
  "exponent s = (case s of
       [] \<Rightarrow> Some (0, [])
     | c # cs \<Rightarrow>
         if c = CHR ''e'' \<or> c = CHR ''E'' then
           (case sign cs of (neg, r) \<Rightarrow>
              (case digitpart r of
                 None \<Rightarrow> None
               | Some (ds, r') \<Rightarrow>
                   Some (if neg then - int (dec_value ds) else int (dec_value ds), r')))
         else Some (0, s))"

definition scale :: "nat \<Rightarrow> int \<Rightarrow> rat" where
  "scale m e = (if 0 \<le> e then of_nat m * 10 ^ nat e else of_nat m / 10 ^ nat (- e))"

text \<open>Magnitudes from \<open>2^1024 - 2^970\<close> on round to an infinity.\<close>

definition overflow :: "bool \<Rightarrow> rat \<Rightarrow> pyfloat" where
  "overflow neg q =
     (if 2 ^ 1024 - 2 ^ 970 \<le> q then (if neg then NegInf else PosInf)
      else Fin (if neg then - q else q))"

definition float_str :: "string \<Rightarrow> error + pyfloat" where
  "float_str s =
     (case sign (strip s) of (neg, u) \<Rightarrow>
        if map lower u = ''nan'' then Inr NaN
        else if map lower u = ''inf'' \<or> map lower u = ''infinity''
          then Inr (if neg then NegInf else PosInf)
        else (case number u of
                None \<Rightarrow> Inl ValueError
              | Some (ip, fp, r) \<Rightarrow>
                  (case exponent r of
                     Some (e, []) \<Rightarrow>
                       Inr (overflow neg (scale (dec_value (ip @ fp)) (e - int (length fp))))
                   | _ \<Rightarrow> Inl ValueError)))"

text \<open>\<^verbatim>\<open>float(x)\<close> on a Python value.\<close>

fun float_py :: "pyval \<Rightarrow> error + pyfloat" where
  "float_py PNone = Inl TypeError"
| "float_py (PBool b) = Inr (Fin (if b then 1 else 0))"
| "float_py (PStr s) = float_str s"
| "float_py (PFloat f) = Inr f"
| "float_py (PDict d) = Inl TypeError"
| "float_py (PList l) = Inl TypeError"

section \<open>\<^verbatim>\<open>models.py\<close>\<close>

subsection \<open>\<^verbatim>\<open>NearEarthObject\<close>\<close>

text \<open>
  The attributes set by \<^verbatim>\<open>__init__\<close>. \<open>approaches\<close> holds references to close approaches;
  the constructor sets it to the empty list and nothing in the two modules appends to it.
\<close>

type_synonym ref = nat

record NearEarthObject =
  designation :: string
  name :: "string option"
  diameter :: pyfloat
  hazardous :: bool
  approaches :: "ref list"

text \<open>
  \<^verbatim>\<open>__init__(self, pha, pdes='', name=None, diameter=float('nan'))\<close>: the only statement
  that can raise is \<^verbatim>\<open>float(diameter)\<close>; \<^verbatim>\<open>pdes\<close>, \<^verbatim>\<open>name\<close> and \<^verbatim>\<open>pha\<close> are stored as given.
\<close>

definition NearEarthObject_init ::
  "bool \<Rightarrow> string \<Rightarrow> string option \<Rightarrow> pyval \<Rightarrow> error + NearEarthObject" where
  "NearEarthObject_init pha pdes nm diam =
     bind_r (float_py diam) (\<lambda>d.
       Inr \<lparr>designation = pdes, name = nm, diameter = d, hazardous = pha, approaches = []\<rparr>)"

text \<open>The defaults of the keyword parameters.\<close>

definition default_pdes :: string where
  "default_pdes = []"

definition default_name :: "string option" where
  "default_name = None"

definition default_diameter :: pyval where
  "default_diameter = PFloat NaN"

text \<open>
  The formatted string \<^verbatim>\<open>f"{self.designation} {self.name}"\<close> on any object: \<^verbatim>\<open>None\<close> is
  rendered as the text \<^verbatim>\<open>None\<close>.
\<close>

definition designation_name :: "NearEarthObject \<Rightarrow> string" where
  "designation_name n =
     designation n @ '' '' @ (case name n of None \<Rightarrow> ''None'' | Some s \<Rightarrow> s)"

text \<open>\<^verbatim>\<open>fullname\<close> branches on the truth value of \<^verbatim>\<open>self.name\<close>: \<^verbatim>\<open>None\<close> and \<^verbatim>\<open>''\<close> are falsy.\<close>

definition fullname :: "NearEarthObject \<Rightarrow> string" where
  "fullname n =
     (case name n of
        None \<Rightarrow> designation n
      | Some s \<Rightarrow> if s \<noteq> [] then designation n @ '' '' @ s else designation n)"

text \<open>
  \<^verbatim>\<open>__str__\<close> and \<^verbatim>\<open>__repr__\<close> format a float with \<^verbatim>\<open>:.3f\<close> and take \<^verbatim>\<open>repr\<close> of strings; both
  builtins are parameters: \<open>fmt k x\<close> is \<^verbatim>\<open>format(x, '.kf')\<close> and \<open>rs s\<close> is \<^verbatim>\<open>repr(s)\<close>.
\<close>

definition NearEarthObject_str :: "(nat \<Rightarrow> pyfloat \<Rightarrow> string) \<Rightarrow> NearEarthObject \<Rightarrow> string" where
  "NearEarthObject_str fmt n =
     (let hazardous_str = (if hazardous n then ''is'' else ''is not'')
      in ''NEO '' @ fullname n @ '' has a diameter of '' @ fmt 3 (diameter n) @ '' km and ''
           @ hazardous_str @ '' potentially hazardous.'')"

definition NearEarthObject_repr ::
  "(nat \<Rightarrow> pyfloat \<Rightarrow> string) \<Rightarrow> (string \<Rightarrow> string) \<Rightarrow> NearEarthObject \<Rightarrow> string" where
  "NearEarthObject_repr fmt rs n =
     ''NearEarthObject(hazardous='' @ (if hazardous n then ''True'' else ''False'')
       @ '', pdes='' @ rs (designation n)
       @ '', name='' @ (case name n of None \<Rightarrow> ''None'' | Some s \<Rightarrow> rs s)
       @ '', diameter='' @ fmt 3 (diameter n) @ '')''"

definition NearEarthObject_serialize :: "NearEarthObject \<Rightarrow> (string \<times> pyval) list" where
  "NearEarthObject_serialize n =
     [(''designation'', PStr (designation n)),
      (''name'', (case name n of None \<Rightarrow> PNone | Some s \<Rightarrow> PStr s)),
      (''diameter_km'', PFloat (diameter n)),
      (''potentially_hazardous'', PBool (hazardous n))]"

text \<open>
  The four methods as operations on the object: each returns its result and the object as
  the method leaves it. None of the method bodies assigns to an attribute; the bodies are
  run statement by statement further below.
\<close>

datatype neo_op = Op_fullname | Op_str | Op_repr | Op_serialize

fun neo_call ::
  "(nat \<Rightarrow> pyfloat \<Rightarrow> string) \<Rightarrow> (string \<Rightarrow> string) \<Rightarrow> neo_op \<Rightarrow> NearEarthObject
     \<Rightarrow> pyval \<times> NearEarthObject" where
  "neo_call fmt rs Op_fullname n = (PStr (fullname n), n)"
| "neo_call fmt rs Op_str n = (PStr (NearEarthObject_str fmt n), n)"
| "neo_call fmt rs Op_repr n = (PStr (NearEarthObject_repr fmt rs n), n)"
| "neo_call fmt rs Op_serialize n = (PDict (NearEarthObject_serialize n), n)"

subsection \<open>\<^verbatim>\<open>CloseApproach\<close>\<close>

text \<open>
  \<open>'dt\<close> is the type of \<^verbatim>\<open>datetime\<close> objects. \<open>designation_ref\<close> is the attribute
  \<^verbatim>\<open>_designation\<close>, stored as given. \<open>neo\<close> is the referenced NEO, \<open>None\<close> until a linker
  sets it.
\<close>

record 'dt CloseApproach =
  designation_ref :: pyval
  time :: "'dt option"
  distance :: pyfloat
  velocity :: pyfloat
  neo :: "NearEarthObject option"

text \<open>
  \<^verbatim>\<open>__init__(self, des='', cd=None, dist=0.0, v_rel=0.0)\<close>. The helper \<^verbatim>\<open>cd_to_datetime\<close> of
  \<^verbatim>\<open>helpers.py\<close> is the parameter \<open>parse\<close>; it is called only when \<^verbatim>\<open>bool(cd)\<close> holds, and what
  it raises is not caught. \<open>init_time\<close> is the right-hand side of the assignment to
  \<^verbatim>\<open>self.time\<close>. The statements run in the source's order.
\<close>

definition init_time :: "(pyval \<Rightarrow> error + 'dt) \<Rightarrow> pyval \<Rightarrow> error + 'dt option" where
  "init_time parse cd = (if truthy cd then bind_r (parse cd) (\<lambda>t. Inr (Some t)) else Inr None)"

definition CloseApproach_init ::
  "(pyval \<Rightarrow> error + 'dt) \<Rightarrow> pyval \<Rightarrow> pyval \<Rightarrow> pyval \<Rightarrow> pyval \<Rightarrow> error + 'dt CloseApproach" where
  "CloseApproach_init parse des cd dst v_rel =
     bind_r (init_time parse cd) (\<lambda>tm.
     bind_r (float_py dst) (\<lambda>d.
     bind_r (float_py v_rel) (\<lambda>v.
       Inr \<lparr>designation_ref = des, time = tm, distance = d, velocity = v, neo = None\<rparr>)))"

definition default_des :: pyval where
  "default_des = PStr []"

definition default_cd :: pyval where
  "default_cd = PNone"

definition default_dist :: pyval where
  "default_dist = PFloat (Fin 0)"

definition default_v_rel :: pyval where
  "default_v_rel = PFloat (Fin 0)"

text \<open>
  \<^verbatim>\<open>time_str\<close>: a \<^verbatim>\<open>datetime\<close> object is always truthy, so the test is whether \<^verbatim>\<open>self.time\<close> is
  set. \<open>fmt_dt\<close> is the helper \<^verbatim>\<open>datetime_to_str\<close>.
\<close>

definition time_str :: "('dt \<Rightarrow> string) \<Rightarrow> 'dt CloseApproach \<Rightarrow> string" where
  "time_str fmt_dt ca = (case time ca of Some t \<Rightarrow> fmt_dt t | None \<Rightarrow> [])"

text \<open>\<^verbatim>\<open>{**a, **b}\<close>: the entries of \<open>a\<close>, then those of \<open>b\<close>, a key of \<open>a\<close> keeping its place.\<close>

definition dict_merge :: "(string \<times> pyval) list \<Rightarrow> (string \<times> pyval) list \<Rightarrow> (string \<times> pyval) list" where
  "dict_merge a b = fold (\<lambda>(k, v) d. AList.update k v d) b a"

text \<open>
  \<^verbatim>\<open>serialize(self, isCsv=False)\<close>. \<^verbatim>\<open>self.neo.serialize()\<close> on \<^verbatim>\<open>self.neo = None\<close> raises
  \<^verbatim>\<open>AttributeError\<close>.
\<close>

definition CloseApproach_serialize ::
  "('dt \<Rightarrow> string) \<Rightarrow> bool \<Rightarrow> 'dt CloseApproach \<Rightarrow> error + (string \<times> pyval) list" where
  "CloseApproach_serialize fmt_dt isCsv ca =
     (let serialized_result =
            [(''datetime_utc'', PStr (time_str fmt_dt ca)),
             (''distance_au'', PFloat (distance ca)),
             (''velocity_km_s'', PFloat (velocity ca))]
      in bind_r (case neo ca of None \<Rightarrow> Inl AttributeError
                               | Some n \<Rightarrow> Inr (NearEarthObject_serialize n)) (\<lambda>serialized_neo.
           if isCsv then Inr (dict_merge serialized_result serialized_neo)
           else Inr (AList.update ''neo'' (PDict serialized_neo) serialized_result)))"

subsection \<open>The bodies of the \<^verbatim>\<open>NearEarthObject\<close> methods as statements\<close>

text \<open>
  To state what the methods do to the object, their bodies are also written as statements
  over the object's attribute dictionary, and run by an interpreter in which an assignment
  \<^verbatim>\<open>self.a = e\<close> is the one statement that changes the object. The builtins that render
  values as text are parameters: \<open>format_fixed k x\<close> is \<^verbatim>\<open>format(x, '.kf')\<close>, \<open>repr_str\<close> is
  \<^verbatim>\<open>repr\<close> on strings, and \<open>str_other\<close> is \<^verbatim>\<open>str\<close> on floats, lists and dictionaries.
\<close>

record builtins =
  format_fixed :: "nat \<Rightarrow> pyfloat \<Rightarrow> string"
  repr_str :: "string \<Rightarrow> string"
  str_other :: "pyval \<Rightarrow> string"

text \<open>
  Expressions: \<open>E_self a\<close> is \<^verbatim>\<open>self.a\<close> for an attribute, \<open>E_prop p\<close> is \<^verbatim>\<open>self.p\<close> for a
  property, \<open>E_var x\<close> a parameter or local variable, \<open>E_lit v\<close> a literal, \<open>E_float e\<close> is
  \<^verbatim>\<open>float(e)\<close>, \<open>E_ifexp c a b\<close> is \<^verbatim>\<open>a if c else b\<close>, \<open>E_fstr\<close> a formatted string literal
  and \<open>E_dict\<close> a dictionary display. The fields of a formatted string are literal text,
  \<^verbatim>\<open>{e}\<close>, \<^verbatim>\<open>{e!r}\<close> and \<^verbatim>\<open>{e:.kf}\<close>. Statements: \<^verbatim>\<open>self.a = e\<close>, \<^verbatim>\<open>x = e\<close>,
  \<^verbatim>\<open>if c: ... else: ...\<close> and \<^verbatim>\<open>return e\<close>.
\<close>

datatype expr =
    E_self string
  | E_var string
  | E_lit pyval
  | E_prop string
  | E_float expr
  | E_ifexp expr expr expr
  | E_fstr "field list"
  | E_dict "(string \<times> expr) list"
and field =
    F_text string
  | F_str expr
  | F_repr expr
  | F_fixed nat expr

datatype stmt =
    S_assign string expr
  | S_local string expr
  | S_if expr "stmt list" "stmt list"
  | S_return expr

type_synonym obj = "string \<rightharpoonup> pyval"

type_synonym props = "string \<Rightarrow> obj \<Rightarrow> (error + pyval) \<times> obj"

fun str_py :: "builtins \<Rightarrow> pyval \<Rightarrow> string" where
  "str_py B (PStr s) = s"
| "str_py B PNone = ''None''"
| "str_py B (PBool b) = (if b then ''True'' else ''False'')"
| "str_py B v = str_other B v"

fun repr_py :: "builtins \<Rightarrow> pyval \<Rightarrow> string" where
  "repr_py B (PStr s) = repr_str B s"
| "repr_py B PNone = ''None''"
| "repr_py B (PBool b) = (if b then ''True'' else ''False'')"
| "repr_py B v = str_other B v"

fun fixed_py :: "builtins \<Rightarrow> nat \<Rightarrow> pyval \<Rightarrow> error + string" where
  "fixed_py B k (PFloat f) = Inr (format_fixed B k f)"
| "fixed_py B k (PBool b) = Inr (format_fixed B k (Fin (if b then 1 else 0)))"
| "fixed_py B k (PStr s) = Inl ValueError"
| "fixed_py B k v = Inl TypeError"

text \<open>
  Evaluation returns the value or the exception, and the object as the evaluation leaves
  it; \<open>P\<close> gives the meaning of the properties. An unset attribute raises
  \<^verbatim>\<open>AttributeError\<close>, an unbound variable \<^verbatim>\<open>NameError\<close>.
\<close>

fun eval :: "builtins \<Rightarrow> props \<Rightarrow> (string \<rightharpoonup> pyval) \<Rightarrow> expr \<Rightarrow> obj \<Rightarrow> (error + pyval) \<times> obj"
and eval_fields ::
  "builtins \<Rightarrow> props \<Rightarrow> (string \<rightharpoonup> pyval) \<Rightarrow> field list \<Rightarrow> obj \<Rightarrow> (error + string) \<times> obj"
and eval_items ::
  "builtins \<Rightarrow> props \<Rightarrow> (string \<rightharpoonup> pyval) \<Rightarrow> (string \<times> expr) list \<Rightarrow> obj
     \<Rightarrow> (error + (string \<times> pyval) list) \<times> obj" where
  "eval B P env (E_self a) s =
     (case s a of None \<Rightarrow> (Inl AttributeError, s) | Some v \<Rightarrow> (Inr v, s))"
| "eval B P env (E_var x) s =
     (case env x of None \<Rightarrow> (Inl NameError, s) | Some v \<Rightarrow> (Inr v, s))"
| "eval B P env (E_lit v) s = (Inr v, s)"
| "eval B P env (E_prop p) s = P p s"
| "eval B P env (E_float e) s =
     (case eval B P env e s of
        (Inl x, s') \<Rightarrow> (Inl x, s')
      | (Inr v, s') \<Rightarrow>
          (case float_py v of Inl x \<Rightarrow> (Inl x, s') | Inr f \<Rightarrow> (Inr (PFloat f), s')))"
| "eval B P env (E_ifexp c a b) s =
     (case eval B P env c s of
        (Inl x, s') \<Rightarrow> (Inl x, s')
      | (Inr v, s') \<Rightarrow> if truthy v then eval B P env a s' else eval B P env b s')"
| "eval B P env (E_fstr fs) s =
     (case eval_fields B P env fs s of
        (Inl x, s') \<Rightarrow> (Inl x, s')
      | (Inr t, s') \<Rightarrow> (Inr (PStr t), s'))"
| "eval B P env (E_dict kvs) s =
     (case eval_items B P env kvs s of
        (Inl x, s') \<Rightarrow> (Inl x, s')
      | (Inr d, s') \<Rightarrow> (Inr (PDict (dict_merge [] d)), s'))"
| "eval_fields B P env [] s = (Inr [], s)"
| "eval_fields B P env (F_text t # fs) s =
     (case eval_fields B P env fs s of
        (Inl x, s') \<Rightarrow> (Inl x, s')
      | (Inr r, s') \<Rightarrow> (Inr (t @ r), s'))"
| "eval_fields B P env (F_str e # fs) s =
     (case eval B P env e s of
        (Inl x, s') \<Rightarrow> (Inl x, s')
      | (Inr v, s') \<Rightarrow>
          (case eval_fields B P env fs s' of
             (Inl x, s'') \<Rightarrow> (Inl x, s'')
           | (Inr r, s'') \<Rightarrow> (Inr (str_py B v @ r), s'')))"
| "eval_fields B P env (F_repr e # fs) s =
     (case eval B P env e s of
        (Inl x, s') \<Rightarrow> (Inl x, s')
      | (Inr v, s') \<Rightarrow>
          (case eval_fields B P env fs s' of
             (Inl x, s'') \<Rightarrow> (Inl x, s'')
           | (Inr r, s'') \<Rightarrow> (Inr (repr_py B v @ r), s'')))"
| "eval_fields B P env (F_fixed k e # fs) s =
     (case eval B P env e s of
        (Inl x, s') \<Rightarrow> (Inl x, s')
      | (Inr v, s') \<Rightarrow>
          (case fixed_py B k v of
             Inl x \<Rightarrow> (Inl x, s')
           | Inr t \<Rightarrow>
               (case eval_fields B P env fs s' of
                  (Inl x, s'') \<Rightarrow> (Inl x, s'')
                | (Inr r, s'') \<Rightarrow> (Inr (t @ r), s''))))"
| "eval_items B P env [] s = (Inr [], s)"
| "eval_items B P env ((k, e) # kvs) s =
     (case eval B P env e s of
        (Inl x, s') \<Rightarrow> (Inl x, s')
      | (Inr v, s') \<Rightarrow>
          (case eval_items B P env kvs s' of
             (Inl x, s'') \<Rightarrow> (Inl x, s'')
           | (Inr d, s'') \<Rightarrow> (Inr ((k, v) # d), s'')))"

text \<open>
  Running a statement list: \<open>Inr None\<close> when the end is reached without \<^verbatim>\<open>return\<close>,
  \<open>Inr (Some v)\<close> on \<^verbatim>\<open>return\<close>, together with the local variables and the object.
\<close>

fun exec ::
  "builtins \<Rightarrow> props \<Rightarrow> stmt list \<Rightarrow> (string \<rightharpoonup> pyval) \<Rightarrow> obj
     \<Rightarrow> (error + pyval option) \<times> (string \<rightharpoonup> pyval) \<times> obj" where
  "exec B P [] env s = (Inr None, env, s)"
| "exec B P (S_assign a e # ss) env s =
     (case eval B P env e s of
        (Inl x, s') \<Rightarrow> (Inl x, env, s')
      | (Inr v, s') \<Rightarrow> exec B P ss env (s'(a \<mapsto> v)))"
| "exec B P (S_local x e # ss) env s =
     (case eval B P env e s of
        (Inl x, s') \<Rightarrow> (Inl x, env, s')
      | (Inr v, s') \<Rightarrow> exec B P ss (env(x \<mapsto> v)) s')"
| "exec B P (S_return e # ss) env s =
     (case eval B P env e s of
        (Inl x, s') \<Rightarrow> (Inl x, env, s')
      | (Inr v, s') \<Rightarrow> (Inr (Some v), env, s'))"
| "exec B P (S_if c t f # ss) env s =
     (case eval B P env c s of
        (Inl x, s') \<Rightarrow> (Inl x, env, s')
      | (Inr v, s') \<Rightarrow>
          if truthy v then
            (case exec B P t env s' of
               (Inr None, env', s'') \<Rightarrow> exec B P ss env' s''
             | r \<Rightarrow> r)
          else
            (case exec B P f env s' of
               (Inr None, env', s'') \<Rightarrow> exec B P ss env' s''
             | r \<Rightarrow> r))"

text \<open>A call: a body that ends without \<^verbatim>\<open>return\<close> returns \<^verbatim>\<open>None\<close>.\<close>

definition call ::
  "builtins \<Rightarrow> props \<Rightarrow> stmt list \<Rightarrow> (string \<rightharpoonup> pyval) \<Rightarrow> obj \<Rightarrow> (error + pyval) \<times> obj" where
  "call B P body args s =
     (case exec B P body args s of
        (Inl x, env, s') \<Rightarrow> (Inl x, s')
      | (Inr None, env, s') \<Rightarrow> (Inr PNone, s')
      | (Inr (Some v), env, s') \<Rightarrow> (Inr v, s'))"

text \<open>The bodies of \<^verbatim>\<open>__init__\<close> (lines 43-47), \<open>fullname\<close>, \<^verbatim>\<open>__str__\<close>, \<^verbatim>\<open>__repr__\<close> and \<open>serialize\<close>.\<close>

definition init_body :: "stmt list" where
  "init_body =
     [S_assign ''designation'' (E_var ''pdes''),
      S_assign ''name'' (E_var ''name''),
      S_assign ''diameter'' (E_float (E_var ''diameter'')),
      S_assign ''hazardous'' (E_var ''pha''),
      S_assign ''approaches'' (E_lit (PList []))]"

definition fullname_body :: "stmt list" where
  "fullname_body =
     [S_if (E_self ''name'')
        [S_return (E_fstr [F_str (E_self ''designation''), F_text '' '', F_str (E_self ''name'')])]
        [S_return (E_self ''designation'')]]"

definition str_body :: "stmt list" where
  "str_body =
     [S_local ''hazardous_str''
        (E_ifexp (E_self ''hazardous'') (E_lit (PStr ''is'')) (E_lit (PStr ''is not''))),
      S_return (E_fstr
        [F_text ''NEO '', F_str (E_prop ''fullname''), F_text '' has a diameter of '',
         F_fixed 3 (E_self ''diameter''), F_text '' km and '', F_str (E_var ''hazardous_str''),
         F_text '' potentially hazardous.''])]"

definition repr_body :: "stmt list" where
  "repr_body =
     [S_return (E_fstr
        [F_text ''NearEarthObject(hazardous='', F_repr (E_self ''hazardous''),
         F_text '', pdes='', F_repr (E_self ''designation''),
         F_text '', name='', F_repr (E_self ''name''),
         F_text '', diameter='', F_fixed 3 (E_self ''diameter''), F_text '')''])]"

definition serialize_body :: "stmt list" where
  "serialize_body =
     [S_return (E_dict
        [(''designation'', E_self ''designation''),
         (''name'', E_self ''name''),
         (''diameter_km'', E_self ''diameter''),
         (''potentially_hazardous'', E_self ''hazardous'')])]"

text \<open>
  The class has the one property \<open>fullname\<close>, whose getter uses no property itself.
  \<open>invoke\<close> calls one of the four operations on an object, \<open>invoke_all\<close> calls a sequence
  of them (a call that raises leaves the object with the caller all the same), and
  \<open>construct\<close> runs \<^verbatim>\<open>__init__\<close> on a fresh object.
\<close>

definition no_props :: props where
  "no_props p s = (Inl AttributeError, s)"

definition neo_props :: "builtins \<Rightarrow> props" where
  "neo_props B p s =
     (if p = ''fullname'' then call B no_props fullname_body Map.empty s
      else (Inl AttributeError, s))"

fun method_body :: "neo_op \<Rightarrow> stmt list" where
  "method_body Op_fullname = fullname_body"
| "method_body Op_str = str_body"
| "method_body Op_repr = repr_body"
| "method_body Op_serialize = serialize_body"

definition invoke :: "builtins \<Rightarrow> neo_op \<Rightarrow> obj \<Rightarrow> (error + pyval) \<times> obj" where
  "invoke B op s = call B (neo_props B) (method_body op) Map.empty s"

fun invoke_all :: "builtins \<Rightarrow> neo_op list \<Rightarrow> obj \<Rightarrow> obj" where
  "invoke_all B [] s = s"
| "invoke_all B (op # ops) s = invoke_all B ops (snd (invoke B op s))"

definition construct :: "builtins \<Rightarrow> pyval \<Rightarrow> pyval \<Rightarrow> pyval \<Rightarrow> pyval \<Rightarrow> error + obj" where
  "construct B pha pdes nm diam =
     (case call B (neo_props B) init_body
             [''pha'' \<mapsto> pha, ''pdes'' \<mapsto> pdes, ''name'' \<mapsto> nm, ''diameter'' \<mapsto> diam] Map.empty of
        (Inl x, s) \<Rightarrow> Inl x
      | (Inr v, s) \<Rightarrow> Inr s)"

text \<open>The attribute dictionary of an object whose \<open>approaches\<close> list is empty.\<close>

definition dict_of :: "NearEarthObject \<Rightarrow> obj" where
  "dict_of n =
     [''designation'' \<mapsto> PStr (designation n),
      ''name'' \<mapsto> (case name n of None \<Rightarrow> PNone | Some s \<Rightarrow> PStr s),
      ''diameter'' \<mapsto> PFloat (diameter n),
      ''hazardous'' \<mapsto> PBool (hazardous n),
      ''approaches'' \<mapsto> PList []]"

section \<open>\<^verbatim>\<open>extract.py\<close>\<close>

text \<open>
  File and format reading (\<^verbatim>\<open>open\<close>, \<^verbatim>\<open>csv.DictReader\<close>, \<^verbatim>\<open>json.load\<close>) is outside the model:
  \<open>load_neos\<close> takes the rows the reader yields, each a dictionary from column name to
  cell text (a row shorter than the header, whose missing cells the reader fills with
  \<^verbatim>\<open>None\<close>, is not modelled), and \<open>load_approaches\<close> takes the decoded top-level JSON
  object, a dictionary whose \<^verbatim>\<open>data\<close> entry is a list of positional records, each a list of
  Python values.
\<close>

type_synonym row = "string \<rightharpoonup> string"

definition getitem :: "(string \<rightharpoonup> 'a) \<Rightarrow> string \<Rightarrow> error + 'a" where
  "getitem d k = (case d k of None \<Rightarrow> Inl KeyError | Some v \<Rightarrow> Inr v)"

text \<open>\<^verbatim>\<open>a or b\<close> on strings: \<^verbatim>\<open>a\<close> when it is non-empty, else \<^verbatim>\<open>b\<close>.\<close>

definition or_str :: "string \<Rightarrow> string \<Rightarrow> string" where
  "or_str a b = (if a \<noteq> [] then a else b)"

text \<open>\<^verbatim>\<open>d.get(k) or None\<close>: the entry when it is present and non-empty, else \<^verbatim>\<open>None\<close>.\<close>

definition get_or_None :: "row \<Rightarrow> string \<Rightarrow> string option" where
  "get_or_None d k = (case d k of None \<Rightarrow> None | Some s \<Rightarrow> if s \<noteq> [] then Some s else None)"

text \<open>
  The body of the \<^verbatim>\<open>for neo in neos\<close> loop, up to the object it appends; \<open>rw\<close> is the
  loop variable \<^verbatim>\<open>neo\<close>.
\<close>

definition load_neos_row :: "row \<Rightarrow> error + NearEarthObject" where
  "load_neos_row rw =
     bind_r (getitem rw ''diameter'') (\<lambda>dm.
     let d = or_str dm ''nan'' in
     bind_r (getitem rw ''pha'') (\<lambda>p.
     let pha = (if p = ''Y'' then True else False);
         nm = get_or_None rw ''name'' in
     bind_r (getitem rw ''pdes'') (\<lambda>pdes.
       NearEarthObject_init pha pdes nm (PStr d))))"

fun load_neos_loop :: "NearEarthObject list \<Rightarrow> row list \<Rightarrow> error + NearEarthObject list" where
  "load_neos_loop neos_arr [] = Inr neos_arr"
| "load_neos_loop neos_arr (rw # neos) =
     (case load_neos_row rw of
        Inl e \<Rightarrow> Inl e
      | Inr n \<Rightarrow> load_neos_loop (neos_arr @ [n]) neos)"

definition load_neos :: "row list \<Rightarrow> error + NearEarthObject list" where
  "load_neos neos = load_neos_loop [] neos"

text \<open>\<^verbatim>\<open>ca[i]\<close> for a non-negative constant index.\<close>

definition index :: "'a list \<Rightarrow> nat \<Rightarrow> error + 'a" where
  "index xs i = (if i < length xs then Inr (xs ! i) else Inl IndexError)"

definition load_approaches_row ::
  "(pyval \<Rightarrow> error + 'dt) \<Rightarrow> pyval list \<Rightarrow> error + 'dt CloseApproach" where
  "load_approaches_row parse ca =
     bind_r (index ca 0) (\<lambda>des.
     bind_r (index ca 3) (\<lambda>cd.
     bind_r (index ca 4) (\<lambda>dst.
     bind_r (index ca 7) (\<lambda>v_rel.
       CloseApproach_init parse des cd dst v_rel))))"

fun load_approaches_loop ::
  "(pyval \<Rightarrow> error + 'dt) \<Rightarrow> 'dt CloseApproach list \<Rightarrow> pyval list list
     \<Rightarrow> error + 'dt CloseApproach list" where
  "load_approaches_loop parse cas_arr [] = Inr cas_arr"
| "load_approaches_loop parse cas_arr (ca # cas) =
     (case load_approaches_row parse ca of
        Inl e \<Rightarrow> Inl e
      | Inr a \<Rightarrow> load_approaches_loop parse (cas_arr @ [a]) cas)"

definition load_approaches ::
  "(pyval \<Rightarrow> error + 'dt) \<Rightarrow> (string \<rightharpoonup> pyval list list) \<Rightarrow> error + 'dt CloseApproach list" where
  "load_approaches parse cas =
     bind_r (getitem cas ''data'') (\<lambda>recs. load_approaches_loop parse [] recs)"

section \<open>The helpers of \<^verbatim>\<open>helpers.py\<close>\<close>

text \<open>
  Modelled from the spec: \<^verbatim>\<open>helpers.py\<close> (\<^verbatim>\<open>cd_to_datetime\<close>, \<^verbatim>\<open>datetime_to_str\<close>) is not among
  the sources. The spec describes \<^verbatim>\<open>parse_datetime(string) -> DateTime\<close>, which fails on
  malformed input, and \<^verbatim>\<open>format_datetime(DateTime) -> string\<close>, which produces a
  minute-resolution representation without seconds such as \<^verbatim>\<open>1900-01-01 12:00\<close>. Every
  general theorem below takes the two helpers as parameters; these definitions only
  instantiate them at concrete inputs.
\<close>

datatype datetime = DateTime nat nat nat nat nat

definition all_digits :: "string \<Rightarrow> bool" where
  "all_digits s = list_all is_digit s"

definition parse_datetime :: "pyval \<Rightarrow> error + datetime" where
  "parse_datetime v =
     (case v of
        PStr s \<Rightarrow>
          if length s = 16 \<and> s ! 4 = CHR ''-'' \<and> s ! 7 = CHR ''-'' \<and> s ! 10 = CHR '' ''
               \<and> s ! 13 = CHR '':''
               \<and> all_digits (take 4 s) \<and> all_digits (take 2 (drop 5 s))
               \<and> all_digits (take 2 (drop 8 s)) \<and> all_digits (take 2 (drop 11 s))
               \<and> all_digits (drop 14 s)
          then
            (let y = dec_value (take 4 s); mo = dec_value (take 2 (drop 5 s));
                 d = dec_value (take 2 (drop 8 s)); h = dec_value (take 2 (drop 11 s));
                 mi = dec_value (drop 14 s)
             in if 1 \<le> mo \<and> mo \<le> 12 \<and> 1 \<le> d \<and> d \<le> 31 \<and> h < 24 \<and> mi < 60
                then Inr (DateTime y mo d h mi) else Inl ValueError)
          else Inl ValueError
      | _ \<Rightarrow> Inl TypeError)"

definition dec_digit :: "nat \<Rightarrow> char" where
  "dec_digit n = ''0123456789'' ! (n mod 10)"

definition pad2 :: "nat \<Rightarrow> string" where
  "pad2 n = [dec_digit (n div 10), dec_digit n]"

definition pad4 :: "nat \<Rightarrow> string" where
  "pad4 n = [dec_digit (n div 1000), dec_digit (n div 100), dec_digit (n div 10), dec_digit n]"

fun format_datetime :: "datetime \<Rightarrow> string" where
  "format_datetime (DateTime y mo d h mi) =
     pad4 y @ ''-'' @ pad2 mo @ ''-'' @ pad2 d @ '' '' @ pad2 h @ '':'' @ pad2 mi"

text \<open>A parser that rejects every input; it shows when the parser is not consulted.\<close>

definition reject_all :: "pyval \<Rightarrow> error + datetime" where
  "reject_all v = Inl ValueError"

section \<open>Sample data\<close>

text \<open>Rows, records and objects used to instantiate the theorems at concrete inputs.\<close>

definition eros_row :: row where
  "eros_row = map_of [(''pdes'', ''433''), (''name'', ''Eros''), (''diameter'', ''16.84''),
                      (''pha'', ''N'')]"

definition eros :: NearEarthObject where
  "eros = \<lparr>designation = ''433'', name = Some ''Eros'', diameter = Fin (421 / 25),
            hazardous = False, approaches = []\<rparr>"

definition unnamed_row :: row where
  "unnamed_row = map_of [(''pdes'', ''2020 AB''), (''name'', []), (''diameter'', []),
                         (''pha'', ''Y'')]"

definition unnamed :: NearEarthObject where
  "unnamed = \<lparr>designation = ''2020 AB'', name = None, diameter = NaN, hazardous = True,
               approaches = []\<rparr>"

definition lower_y_row :: row where
  "lower_y_row = map_of [(''pdes'', ''2021 CD''), (''name'', []), (''diameter'', ''0.5''),
                         (''pha'', ''y'')]"

definition lower_y :: NearEarthObject where
  "lower_y = \<lparr>designation = ''2021 CD'', name = None, diameter = Fin (1 / 2), hazardous = False,
               approaches = []\<rparr>"

definition blank_row :: row where
  "blank_row = map_of [(''pdes'', []), (''name'', ''Eros''), (''diameter'', ''16.84''),
                       (''pha'', [])]"

definition blank :: NearEarthObject where
  "blank = \<lparr>designation = [], name = Some ''Eros'', diameter = Fin (421 / 25),
             hazardous = False, approaches = []\<rparr>"

definition eros_record :: "pyval list" where
  "eros_record = [PStr ''433'', PStr ''433'', PStr ''2415021.0'', PStr ''1900-01-01 12:00'',
                  PStr ''0.15'', PStr ''0.14'', PStr ''0.16'', PStr ''5.2'', PStr ''5.1'',
                  PStr ''< 00:01'', PStr ''10.4'']"

definition eros_approach :: "datetime CloseApproach" where
  "eros_approach = \<lparr>designation_ref = PStr ''433'', time = Some (DateTime 1900 1 1 12 0),
                     distance = Fin (3 / 20), velocity = Fin (26 / 5), neo = None\<rparr>"

definition undated_record :: "pyval list" where
  "undated_record = [PStr ''2020 AB'', PNone, PNone, PNone, PStr ''0.5'', PNone, PNone,
                     PStr ''10'']"

definition undated_approach :: "datetime CloseApproach" where
  "undated_approach = \<lparr>designation_ref = PStr ''2020 AB'', time = None,
                        distance = Fin (1 / 2), velocity = Fin 10, neo = None\<rparr>"

definition linked_approach :: "datetime CloseApproach" where
  "linked_approach = eros_approach\<lparr>neo := Some eros\<rparr>"

definition malformed_row :: row where
  "malformed_row = map_of [(''pdes'', ''433''), (''name'', ''Eros''), (''diameter'', ''abc''),
                           (''pha'', ''N'')]"

definition plain_builtins :: builtins where
  "plain_builtins = \<lparr>format_fixed = (\<lambda>k x. ''16.840''), repr_str = (\<lambda>t. t),
                      str_other = (\<lambda>v. [])\<rparr>"

section \<open>Auxiliary facts\<close>

text \<open>The equations that evaluate the definitions on concrete inputs.\<close>

lemmas float_eval =
  float_str_def strip_def sign_def is_space_def is_digit_def digit_val_def lower_def
  digitpart_def number_def dec_value_def exponent_def scale_def overflow_def

lemmas datetime_eval =
  parse_datetime_def all_digits_def pad2_def pad4_def dec_digit_def

lemmas sample_defs =
  eros_row_def eros_def unnamed_row_def unnamed_def lower_y_row_def lower_y_def
  blank_row_def blank_def eros_record_def eros_approach_def undated_record_def
  undated_approach_def linked_approach_def

lemmas load_eval =
  load_neos_def load_neos_row_def getitem_def or_str_def get_or_None_def
  NearEarthObject_init_def load_approaches_def load_approaches_row_def index_def
  CloseApproach_init_def init_time_def

lemma bind_r_Inl [simp]: "bind_r (Inl e) f = Inl e"
  by (simp add: bind_r_def)

lemma bind_r_Inr [simp]: "bind_r (Inr v) f = f v"
  by (simp add: bind_r_def)

lemma bind_r_eq_Inr: "bind_r m f = Inr y \<longleftrightarrow> (\<exists>v. m = Inr v \<and> f v = Inr y)"
  by (cases m) simp_all

lemma float_str_nan: "float_str ''nan'' = Inr NaN"
  by (simp add: float_eval)

lemma NearEarthObject_init_Inr:
  "NearEarthObject_init pha pdes nm d = Inr n \<longleftrightarrow>
     (\<exists>x. float_py d = Inr x \<and>
        n = \<lparr>designation = pdes, name = nm, diameter = x, hazardous = pha, approaches = []\<rparr>)"
  by (auto simp: NearEarthObject_init_def bind_r_eq_Inr)

subsection \<open>One row of \<open>load_neos\<close>\<close>

lemma load_neos_row_present:
  assumes "rw ''diameter'' = Some dm" and "rw ''pha'' = Some p" and "rw ''pdes'' = Some pd"
  shows "load_neos_row rw =
           NearEarthObject_init (p = ''Y'') pd (get_or_None rw ''name'') (PStr (or_str dm ''nan''))"
  unfolding load_neos_row_def getitem_def Let_def
  by (simp only: assms option.case bind_r_Inr if_bool_eq_conj simp_thms)

lemma load_neos_row_keys:
  assumes "load_neos_row rw = Inr n"
  shows "\<exists>dm p pd. rw ''diameter'' = Some dm \<and> rw ''pha'' = Some p \<and> rw ''pdes'' = Some pd"
proof (cases "rw ''diameter''")
  case None
  with assms show ?thesis by (simp add: load_neos_row_def getitem_def)
next
  case dm: (Some dm)
  show ?thesis
  proof (cases "rw ''pha''")
    case None
    with assms dm show ?thesis by (simp add: load_neos_row_def getitem_def Let_def)
  next
    case p: (Some p)
    show ?thesis
    proof (cases "rw ''pdes''")
      case None
      with assms dm p show ?thesis by (simp add: load_neos_row_def getitem_def Let_def)
    next
      case (Some pd)
      with dm p show ?thesis by simp
    qed
  qed
qed

lemma load_neos_row_Inr:
  assumes "load_neos_row rw = Inr n"
  obtains dm p pd x where "rw ''diameter'' = Some dm" and "rw ''pha'' = Some p"
    and "rw ''pdes'' = Some pd" and "float_str (or_str dm ''nan'') = Inr x"
    and "n = \<lparr>designation = pd, name = get_or_None rw ''name'', diameter = x,
               hazardous = (p = ''Y''), approaches = []\<rparr>"
proof -
  from load_neos_row_keys [OF assms] obtain dm p pd where
    k: "rw ''diameter'' = Some dm" "rw ''pha'' = Some p" "rw ''pdes'' = Some pd"
    by blast
  from assms
  have "NearEarthObject_init (p = ''Y'') pd (get_or_None rw ''name'') (PStr (or_str dm ''nan''))
          = Inr n"
    by (simp only: load_neos_row_present [OF k])
  then obtain x where "float_str (or_str dm ''nan'') = Inr x"
    and "n = \<lparr>designation = pd, name = get_or_None rw ''name'', diameter = x,
               hazardous = (p = ''Y''), approaches = []\<rparr>"
    unfolding NearEarthObject_init_Inr by auto
  with k that show thesis by blast
qed

lemma load_neos_row_fields:
  assumes "load_neos_row rw = Inr n"
  shows "rw ''pdes'' = Some (designation n)"
    and "hazardous n = (rw ''pha'' = Some ''Y'')"
    and "name n = get_or_None rw ''name''"
    and "approaches n = []"
    and "\<exists>dm. rw ''diameter'' = Some dm \<and> float_str (or_str dm ''nan'') = Inr (diameter n)"
proof -
  from assms obtain dm p pd x where
    dm: "rw ''diameter'' = Some dm" and p: "rw ''pha'' = Some p" and pd: "rw ''pdes'' = Some pd"
    and x: "float_str (or_str dm ''nan'') = Inr x"
    and n: "n = \<lparr>designation = pd, name = get_or_None rw ''name'', diameter = x,
                 hazardous = (p = ''Y''), approaches = []\<rparr>"
    by (rule load_neos_row_Inr)
  have d: "designation n = pd" by (subst n) (simp only: NearEarthObject.simps)
  show "rw ''pdes'' = Some (designation n)" by (simp only: d pd)
  have h: "hazardous n = (p = ''Y'')" by (subst n) (simp only: NearEarthObject.simps)
  show "hazardous n = (rw ''pha'' = Some ''Y'')" by (simp only: h p option.inject)
  show "name n = get_or_None rw ''name''" by (subst n) (simp only: NearEarthObject.simps)
  show "approaches n = []" by (subst n) (simp only: NearEarthObject.simps)
  have "diameter n = x" by (subst n) (simp only: NearEarthObject.simps)
  with dm x
  show "\<exists>dm. rw ''diameter'' = Some dm \<and> float_str (or_str dm ''nan'') = Inr (diameter n)"
    by simp
qed

subsection \<open>The loops\<close>

lemma load_neos_loop_Inr:
  "load_neos_loop acc rows = Inr ns \<longleftrightarrow>
     (\<exists>ms. ns = acc @ ms \<and> list_all2 (\<lambda>rw n. load_neos_row rw = Inr n) rows ms)"
proof (induction rows arbitrary: acc)
  case Nil
  then show ?case by auto
next
  case (Cons rw rows)
  show ?case
  proof (cases "load_neos_row rw")
    case (Inl e)
    then show ?thesis by (auto simp: list_all2_Cons1)
  next
    case (Inr n)
    then show ?thesis by (auto simp: Cons.IH list_all2_Cons1)
  qed
qed

lemma load_neos_Inr:
  "load_neos rows = Inr ns \<longleftrightarrow> list_all2 (\<lambda>rw n. load_neos_row rw = Inr n) rows ns"
  by (simp add: load_neos_def load_neos_loop_Inr)

lemma load_neos_nth:
  assumes "load_neos rows = Inr ns"
  shows "length ns = length rows"
    and "i < length rows \<Longrightarrow> load_neos_row (rows ! i) = Inr (ns ! i)"
  using assms by (simp_all add: load_neos_Inr list_all2_conv_all_nth)

lemma load_approaches_loop_Inr:
  "load_approaches_loop parse acc recs = Inr res \<longleftrightarrow>
     (\<exists>ms. res = acc @ ms \<and> list_all2 (\<lambda>ca a. load_approaches_row parse ca = Inr a) recs ms)"
proof (induction recs arbitrary: acc)
  case Nil
  then show ?case by auto
next
  case (Cons ca recs)
  show ?case
  proof (cases "load_approaches_row parse ca")
    case (Inl e)
    then show ?thesis by (auto simp: list_all2_Cons1)
  next
    case (Inr a)
    then show ?thesis by (auto simp: Cons.IH list_all2_Cons1)
  qed
qed

lemma load_approaches_row_Inr:
  "load_approaches_row parse ca = Inr a \<longleftrightarrow>
     8 \<le> length ca \<and> CloseApproach_init parse (ca ! 0) (ca ! 3) (ca ! 4) (ca ! 7) = Inr a"
  by (auto simp: load_approaches_row_def index_def)

lemma get_or_None_nonempty: "get_or_None rw k \<noteq> Some []"
  by (simp add: get_or_None_def split: option.splits)

subsection \<open>\<open>CloseApproach.serialize\<close> in its three cases\<close>

lemma serialize_flat:
  assumes "neo ca = Some n"
  shows "CloseApproach_serialize fmt_dt True ca =
           Inr [(''datetime_utc'', PStr (time_str fmt_dt ca)),
                (''distance_au'', PFloat (distance ca)),
                (''velocity_km_s'', PFloat (velocity ca)),
                (''designation'', PStr (designation n)),
                (''name'', (case name n of None \<Rightarrow> PNone | Some s \<Rightarrow> PStr s)),
                (''diameter_km'', PFloat (diameter n)),
                (''potentially_hazardous'', PBool (hazardous n))]"
  using assms
  by (simp add: CloseApproach_serialize_def NearEarthObject_serialize_def dict_merge_def)

lemma serialize_nested:
  assumes "neo ca = Some n"
  shows "CloseApproach_serialize fmt_dt False ca =
           Inr [(''datetime_utc'', PStr (time_str fmt_dt ca)),
                (''distance_au'', PFloat (distance ca)),
                (''velocity_km_s'', PFloat (velocity ca)),
                (''neo'', PDict (NearEarthObject_serialize n))]"
  using assms
  by (simp add: CloseApproach_serialize_def)

lemma serialize_unlinked:
  assumes "neo ca = None"
  shows "CloseApproach_serialize fmt_dt isCsv ca = Inl AttributeError"
  using assms by (simp add: CloseApproach_serialize_def)

lemma NearEarthObject_serialize_keys:
  "map fst (NearEarthObject_serialize n)
     = [''designation'', ''name'', ''diameter_km'', ''potentially_hazardous'']"
  by (simp add: NearEarthObject_serialize_def)

subsection \<open>The sample rows and records, evaluated\<close>

lemma load_eros_row: "load_neos_row eros_row = Inr eros"
  by (simp add: sample_defs load_eval float_eval)

lemma load_unnamed_row: "load_neos_row unnamed_row = Inr unnamed"
  by (simp add: sample_defs load_eval float_eval)

lemma load_lower_y_row: "load_neos_row lower_y_row = Inr lower_y"
  by (simp add: sample_defs load_eval float_eval)

lemma load_blank_row: "load_neos_row blank_row = Inr blank"
  by (simp add: sample_defs load_eval float_eval)

lemma load_sample_rows:
  "load_neos [eros_row, unnamed_row, lower_y_row, blank_row] = Inr [eros, unnamed, lower_y, blank]"
  by (simp add: load_neos_Inr load_eros_row load_unnamed_row load_lower_y_row load_blank_row)

lemma init_eros_approach:
  "CloseApproach_init parse_datetime (PStr ''433'') (PStr ''1900-01-01 12:00'') (PStr ''0.15'')
     (PStr ''5.2'') = Inr eros_approach"
  by (simp add: sample_defs load_eval float_eval datetime_eval)

lemma init_undated_approach:
  "CloseApproach_init parse_datetime (PStr ''2020 AB'') PNone (PStr ''0.5'') (PStr ''10'')
     = Inr undated_approach"
  by (simp add: sample_defs load_eval float_eval)

subsection \<open>Malformed diameters in \<open>load_neos\<close>\<close>

lemma load_neos_row_malformed:
  assumes "rw ''diameter'' = Some dm" and "rw ''pha'' = Some p" and "rw ''pdes'' = Some pd"
    and "dm \<noteq> []" and "float_str dm = Inl e"
  shows "load_neos_row rw = Inl e"
proof -
  have "or_str dm ''nan'' = dm"
    using assms(4) by (simp add: or_str_def)
  with assms(5) show ?thesis
    by (simp add: load_neos_row_present [OF assms(1-3)] NearEarthObject_init_def)
qed

lemma load_neos_row_diameter:
  assumes "load_neos_row rw = Inr n"
  shows "\<exists>dm. rw ''diameter'' = Some dm
           \<and> (if dm = [] then diameter n = NaN else float_str dm = Inr (diameter n))"
proof -
  from load_neos_row_fields(5) [OF assms] obtain dm where
    dm: "rw ''diameter'' = Some dm" and f: "float_str (or_str dm ''nan'') = Inr (diameter n)"
    by blast
  show ?thesis
  proof (cases "dm = []")
    case True
    with f have "diameter n = NaN"
      by (simp add: or_str_def float_str_nan)
    with dm True show ?thesis by simp
  next
    case False
    with f have "float_str dm = Inr (diameter n)"
      by (simp add: or_str_def)
    with dm False show ?thesis by simp
  qed
qed

lemma load_neos_loop_append:
  "load_neos_loop acc pre = Inr ns \<Longrightarrow>
     load_neos_loop acc (pre @ rest) = load_neos_loop ns rest"
proof (induction pre arbitrary: acc)
  case Nil
  then show ?case by simp
next
  case (Cons rw pre)
  then show ?case
    by (cases "load_neos_row rw") simp_all
qed

lemma load_neos_first_error:
  assumes "load_neos pre = Inr ns" and "load_neos_row rw = Inl e"
  shows "load_neos (pre @ rw # post) = Inl e"
  using assms load_neos_loop_append [of "[]" pre ns "rw # post"]
  by (simp add: load_neos_def)

subsection \<open>The method bodies, run as statements\<close>

text \<open>An assignment does change the object: the interpreter has no frame rule built in.\<close>

lemma assignment_changes_object: "snd (call B P [S_assign a (E_lit v)] env s) a = Some v"
  by (simp add: call_def)

lemma fullname_same: "snd (call B no_props fullname_body env s) = s"
  by (simp add: call_def fullname_body_def split: option.splits sum.splits prod.splits)

lemma neo_props_same:
  assumes "neo_props B p s = (r, s')"
  shows "s' = s"
proof (cases "p = ''fullname''")
  case True
  with assms have "call B no_props fullname_body Map.empty s = (r, s')"
    by (simp add: neo_props_def)
  then have "snd (call B no_props fullname_body Map.empty s) = s'"
    by simp
  then show ?thesis
    by (simp only: fullname_same)
next
  case False
  with assms show ?thesis
    by (simp add: neo_props_def)
qed

text \<open>Each of the four bodies, run on any object, returns the object as it was.\<close>

lemma invoke_same: "snd (invoke B op s) = s"
proof (cases op)
  case Op_fullname
  then show ?thesis
    by (simp add: invoke_def call_def fullname_body_def split: option.splits sum.splits prod.splits)
next
  case Op_str
  show ?thesis
    unfolding Op_str invoke_def call_def str_body_def method_body.simps
    by (auto split: option.splits sum.splits prod.splits dest: neo_props_same)
next
  case Op_repr
  then show ?thesis
    by (simp add: invoke_def call_def repr_body_def split: option.splits sum.splits prod.splits)
next
  case Op_serialize
  then show ?thesis
    by (simp add: invoke_def call_def serialize_body_def split: option.splits sum.splits prod.splits)
qed

lemma invoke_all_same: "invoke_all B ops s = s"
  by (induction ops) (simp_all add: invoke_same)

lemma construct_Inr:
  "construct B pha pdes nm diam = Inr s \<longleftrightarrow>
     (\<exists>f. float_py diam = Inr f \<and>
        s = [''designation'' \<mapsto> pdes, ''name'' \<mapsto> nm, ''diameter'' \<mapsto> PFloat f,
             ''hazardous'' \<mapsto> pha, ''approaches'' \<mapsto> PList []])"
  by (cases "float_py diam") (auto simp: construct_def call_def init_body_def)

text \<open>
  The statements compute what the functions \<open>NearEarthObject_init\<close>, \<open>fullname\<close>,
  \<open>NearEarthObject_str\<close>, \<open>NearEarthObject_repr\<close> and \<open>NearEarthObject_serialize\<close> compute.
\<close>

lemma construct_agrees:
  assumes "NearEarthObject_init pha pdes nm d = Inr n"
  shows "construct B (PBool pha) (PStr pdes) (case nm of None \<Rightarrow> PNone | Some t \<Rightarrow> PStr t) d
           = Inr (dict_of n)"
proof -
  from assms obtain x where x: "float_py d = Inr x"
    and n: "n = \<lparr>designation = pdes, name = nm, diameter = x, hazardous = pha, approaches = []\<rparr>"
    unfolding NearEarthObject_init_Inr by blast
  show ?thesis
    unfolding construct_Inr using x by (simp add: n dict_of_def)
qed

lemma invoke_agrees_fullname:
  "fst (invoke B Op_fullname (dict_of n)) = Inr (PStr (fullname n))"
  by (cases "name n")
     (simp_all add: invoke_def call_def fullname_body_def dict_of_def fullname_def)

lemma neo_props_fullname:
  "neo_props B ''fullname'' (dict_of n) = (Inr (PStr (fullname n)), dict_of n)"
  by (cases "name n")
     (simp_all add: neo_props_def call_def fullname_body_def dict_of_def fullname_def)

lemma invoke_agrees_str:
  "fst (invoke B Op_str (dict_of n))
     = Inr (PStr (NearEarthObject_str (format_fixed B) n))"
proof -
  have h: "dict_of n ''hazardous'' = Some (PBool (hazardous n))"
    "dict_of n ''diameter'' = Some (PFloat (diameter n))"
    by (simp_all add: dict_of_def)
  show ?thesis
    by (simp add: invoke_def call_def str_body_def neo_props_fullname h NearEarthObject_str_def)
qed

lemma invoke_agrees_repr:
  "fst (invoke B Op_repr (dict_of n))
     = Inr (PStr (NearEarthObject_repr (format_fixed B) (repr_str B) n))"
  by (cases "name n")
     (simp_all add: invoke_def call_def repr_body_def dict_of_def NearEarthObject_repr_def)

lemma invoke_agrees_serialize:
  "fst (invoke B Op_serialize (dict_of n)) = Inr (PDict (NearEarthObject_serialize n))"
  by (simp add: invoke_def call_def serialize_body_def dict_of_def NearEarthObject_serialize_def
      dict_merge_def)

lemma invoke_agrees:
  "fst (invoke B op (dict_of n))
     = Inr (fst (neo_call (format_fixed B) (repr_str B) op n))"
  by (cases op)
     (simp_all add: invoke_agrees_fullname invoke_agrees_str invoke_agrees_repr
        invoke_agrees_serialize)

section \<open>The claims\<close>

subsection \<open>C1: malformed numeric fields\<close>

text \<open>
  Claim C1, as the code has it. Neither constructor catches what \<^verbatim>\<open>float\<close> raises: when
  \<^verbatim>\<open>float\<close> fails on the diameter, the distance or the velocity, the constructor fails with
  the same error. Only an empty diameter cell is recovered, by \<open>load_neos\<close>, which passes
  \<^verbatim>\<open>'nan'\<close> in its place and so obtains the diameter NaN: a row whose diameter cell is
  non-empty text that \<^verbatim>\<open>float\<close> rejects fails with that error, a row that succeeds has the
  diameter that \<^verbatim>\<open>float\<close> returns on its cell, and \<open>load_neos\<close> fails with the error of the
  first row that fails. When both \<^verbatim>\<open>float\<close> calls of \<^verbatim>\<open>CloseApproach.__init__\<close> succeed,
  distance and velocity are the values they return; NaN and 0.0 otherwise arise only as
  the defaults of the omitted parameters.
\<close>

theorem numeric_fields_not_recovered:
  "(float_py d = Inl e \<longrightarrow> NearEarthObject_init pha pdes nm d = Inl e)
   \<and> (rw ''diameter'' = Some [] \<and> rw ''pha'' = Some p \<and> rw ''pdes'' = Some pd \<longrightarrow>
        (\<exists>n. load_neos_row rw = Inr n \<and> diameter n = NaN))
   \<and> (rw ''diameter'' = Some dm \<and> rw ''pha'' = Some p \<and> rw ''pdes'' = Some pd
        \<and> dm \<noteq> [] \<and> float_str dm = Inl e \<longrightarrow> load_neos_row rw = Inl e)
   \<and> (load_neos_row rw = Inr n \<longrightarrow>
        (\<exists>c. rw ''diameter'' = Some c
           \<and> (if c = [] then diameter n = NaN else float_str c = Inr (diameter n))))
   \<and> (load_neos pre = Inr ns \<and> load_neos_row rw = Inl e \<longrightarrow>
        load_neos (pre @ rw # post) = Inl e)
   \<and> (init_time parse cd = Inr tm \<and> float_py dst = Inl e \<longrightarrow>
        CloseApproach_init parse des cd dst v_rel = Inl e)
   \<and> (init_time parse cd = Inr tm \<and> float_py dst = Inr x \<and> float_py v_rel = Inl e \<longrightarrow>
        CloseApproach_init parse des cd dst v_rel = Inl e)
   \<and> (init_time parse cd = Inr tm \<and> float_py dst = Inr x \<and> float_py v_rel = Inr y \<longrightarrow>
        (\<exists>ca. CloseApproach_init parse des cd dst v_rel = Inr ca
              \<and> distance ca = x \<and> velocity ca = y))
   \<and> NearEarthObject_init pha default_pdes default_name default_diameter
        = Inr \<lparr>designation = [], name = None, diameter = NaN, hazardous = pha,
               approaches = []\<rparr>
   \<and> CloseApproach_init parse default_des default_cd default_dist default_v_rel
        = Inr \<lparr>designation_ref = PStr [], time = None, distance = Fin 0, velocity = Fin 0,
               neo = None\<rparr>"
proof (intro conjI impI)
  assume "float_py d = Inl e"
  then show "NearEarthObject_init pha pdes nm d = Inl e"
    by (simp add: NearEarthObject_init_def)
next
  assume a: "rw ''diameter'' = Some [] \<and> rw ''pha'' = Some p \<and> rw ''pdes'' = Some pd"
  then have "load_neos_row rw =
      NearEarthObject_init (p = ''Y'') pd (get_or_None rw ''name'') (PStr (or_str [] ''nan''))"
    by (intro load_neos_row_present) simp_all
  also have "or_str [] ''nan'' = ''nan''"
    by (simp add: or_str_def)
  finally show "\<exists>n. load_neos_row rw = Inr n \<and> diameter n = NaN"
    by (simp add: NearEarthObject_init_def float_str_nan)
next
  assume "rw ''diameter'' = Some dm \<and> rw ''pha'' = Some p \<and> rw ''pdes'' = Some pd
        \<and> dm \<noteq> [] \<and> float_str dm = Inl e"
  then show "load_neos_row rw = Inl e"
    by (intro load_neos_row_malformed [of rw dm p pd]) simp_all
next
  assume "load_neos_row rw = Inr n"
  then show "\<exists>c. rw ''diameter'' = Some c
           \<and> (if c = [] then diameter n = NaN else float_str c = Inr (diameter n))"
    by (rule load_neos_row_diameter)
next
  assume "load_neos pre = Inr ns \<and> load_neos_row rw = Inl e"
  then show "load_neos (pre @ rw # post) = Inl e"
    by (intro load_neos_first_error [of pre ns]) simp_all
next
  assume "init_time parse cd = Inr tm \<and> float_py dst = Inl e"
  then show "CloseApproach_init parse des cd dst v_rel = Inl e"
    by (simp add: CloseApproach_init_def)
next
  assume "init_time parse cd = Inr tm \<and> float_py dst = Inr x \<and> float_py v_rel = Inl e"
  then show "CloseApproach_init parse des cd dst v_rel = Inl e"
    by (simp add: CloseApproach_init_def)
next
  assume "init_time parse cd = Inr tm \<and> float_py dst = Inr x \<and> float_py v_rel = Inr y"
  then show "\<exists>ca. CloseApproach_init parse des cd dst v_rel = Inr ca
              \<and> distance ca = x \<and> velocity ca = y"
    by (simp add: CloseApproach_init_def)
next
  show "NearEarthObject_init pha default_pdes default_name default_diameter
        = Inr \<lparr>designation = [], name = None, diameter = NaN, hazardous = pha,
               approaches = []\<rparr>"
    by (simp add: NearEarthObject_init_def default_pdes_def default_name_def
        default_diameter_def)
next
  show "CloseApproach_init parse default_des default_cd default_dist default_v_rel
        = Inr \<lparr>designation_ref = PStr [], time = None, distance = Fin 0, velocity = Fin 0,
               neo = None\<rparr>"
    by (simp add: CloseApproach_init_def init_time_def default_des_def default_cd_def
        default_dist_def default_v_rel_def)
qed

text \<open>
  The theorem at concrete inputs: the diameter \<^verbatim>\<open>12km\<close>, the row with an empty diameter cell,
  the row with the diameter \<^verbatim>\<open>abc\<close> alone and between two well-formed rows, the row with the
  diameter \<^verbatim>\<open>16.84\<close>, and the distances and velocities \<^verbatim>\<open>abc\<close>, \<^verbatim>\<open>fast\<close>, \<^verbatim>\<open>0.15\<close> and
  \<^verbatim>\<open>5.2\<close>.
\<close>

theorem numeric_fields_not_recovered_witness:
  "NearEarthObject_init True ''433'' None (PStr ''12km'') = Inl ValueError
   \<and> (\<exists>n. load_neos_row unnamed_row = Inr n \<and> diameter n = NaN)
   \<and> load_neos_row malformed_row = Inl ValueError
   \<and> float_str ''16.84'' = Inr (diameter eros)
   \<and> load_neos ([eros_row] @ malformed_row # [unnamed_row]) = Inl ValueError
   \<and> CloseApproach_init parse_datetime (PStr ''433'') PNone (PStr ''abc'') (PStr ''5.2'')
       = Inl ValueError
   \<and> CloseApproach_init parse_datetime (PStr ''433'') PNone (PStr ''0.15'') (PStr ''fast'')
       = Inl ValueError
   \<and> (\<exists>ca. CloseApproach_init parse_datetime (PStr ''433'') PNone (PStr ''0.15'') (PStr ''5.2'')
              = Inr ca \<and> distance ca = Fin (3 / 20) \<and> velocity ca = Fin (26 / 5))"
proof -
  have t: "init_time parse_datetime PNone = Inr None"
    by (simp add: init_time_def)
  have f1: "float_py (PStr ''12km'') = Inl ValueError" by (simp add: float_eval)
  have f2: "float_py (PStr ''abc'') = Inl ValueError" by (simp add: float_eval)
  have f3: "float_py (PStr ''fast'') = Inl ValueError" by (simp add: float_eval)
  have f4: "float_py (PStr ''0.15'') = Inr (Fin (3 / 20))" by (simp add: float_eval)
  have f5: "float_py (PStr ''5.2'') = Inr (Fin (26 / 5))" by (simp add: float_eval)
  have f6: "float_str ''abc'' = Inl ValueError" by (simp add: float_eval)
  have r: "unnamed_row ''diameter'' = Some [] \<and> unnamed_row ''pha'' = Some ''Y''
             \<and> unnamed_row ''pdes'' = Some ''2020 AB''"
    by (simp add: unnamed_row_def)
  have m: "malformed_row ''diameter'' = Some ''abc'' \<and> malformed_row ''pha'' = Some ''N''
             \<and> malformed_row ''pdes'' = Some ''433'' \<and> ''abc'' \<noteq> []"
    by (simp add: malformed_row_def)
  have k: "eros_row ''diameter'' = Some ''16.84''"
    by (simp add: eros_row_def)
  have l: "load_neos [eros_row] = Inr [eros]"
    by (simp add: load_neos_Inr load_eros_row)
  note a = numeric_fields_not_recovered
    [where d = "PStr ''12km''" and e = ValueError and pha = True and pdes = "''433''"
       and nm = None and rw = unnamed_row and p = "''Y''" and pd = "''2020 AB''"
       and parse = parse_datetime and cd = PNone and tm = None and dst = "PStr ''abc''"
       and des = "PStr ''433''" and v_rel = "PStr ''5.2''"]
  note b = numeric_fields_not_recovered
    [where parse = parse_datetime and cd = PNone and tm = None and dst = "PStr ''0.15''"
       and x = "Fin (3 / 20)" and y = "Fin (26 / 5)" and e = ValueError
       and des = "PStr ''433''" and v_rel = "PStr ''fast''"]
  note c = numeric_fields_not_recovered
    [where parse = parse_datetime and cd = PNone and tm = None and dst = "PStr ''0.15''"
       and x = "Fin (3 / 20)" and y = "Fin (26 / 5)"
       and des = "PStr ''433''" and v_rel = "PStr ''5.2''"]
  note g = numeric_fields_not_recovered
    [where rw = malformed_row and dm = "''abc''" and p = "''N''" and pd = "''433''"
       and e = ValueError and pre = "[eros_row]" and ns = "[eros]" and post = "[unnamed_row]"]
  note h = numeric_fields_not_recovered [where rw = eros_row and n = eros]
  from a [THEN conjunct1] f1
  have 1: "NearEarthObject_init True ''433'' None (PStr ''12km'') = Inl ValueError"
    by (rule mp)
  from a [THEN conjunct2, THEN conjunct1] r
  have 2: "\<exists>n. load_neos_row unnamed_row = Inr n \<and> diameter n = NaN"
    by (rule mp)
  from m f6
  have m': "malformed_row ''diameter'' = Some ''abc'' \<and> malformed_row ''pha'' = Some ''N''
             \<and> malformed_row ''pdes'' = Some ''433'' \<and> ''abc'' \<noteq> []
             \<and> float_str ''abc'' = Inl ValueError"
    by simp
  from g [THEN conjunct2, THEN conjunct2, THEN conjunct1] m'
  have 3: "load_neos_row malformed_row = Inl ValueError"
    by (rule mp)
  from h [THEN conjunct2, THEN conjunct2, THEN conjunct2, THEN conjunct1] load_eros_row
  have "\<exists>c. eros_row ''diameter'' = Some c
           \<and> (if c = [] then diameter eros = NaN else float_str c = Inr (diameter eros))"
    by (rule mp)
  with k have 4: "float_str ''16.84'' = Inr (diameter eros)"
    by simp
  from l 3 have l3: "load_neos [eros_row] = Inr [eros] \<and> load_neos_row malformed_row = Inl ValueError"
    by simp
  from g [THEN conjunct2, THEN conjunct2, THEN conjunct2, THEN conjunct2, THEN conjunct1] l3
  have 5: "load_neos ([eros_row] @ malformed_row # [unnamed_row]) = Inl ValueError"
    by (rule mp)
  from t f2 have tf2: "init_time parse_datetime PNone = Inr None
      \<and> float_py (PStr ''abc'') = Inl ValueError"
    by simp
  from a [THEN conjunct2, THEN conjunct2, THEN conjunct2, THEN conjunct2, THEN conjunct2,
          THEN conjunct1] tf2
  have 6: "CloseApproach_init parse_datetime (PStr ''433'') PNone (PStr ''abc'') (PStr ''5.2'')
       = Inl ValueError"
    by (rule mp)
  from t f4 f3 have tf3: "init_time parse_datetime PNone = Inr None
      \<and> float_py (PStr ''0.15'') = Inr (Fin (3 / 20)) \<and> float_py (PStr ''fast'') = Inl ValueError"
    by simp
  from b [THEN conjunct2, THEN conjunct2, THEN conjunct2, THEN conjunct2, THEN conjunct2,
          THEN conjunct2, THEN conjunct1] tf3
  have 7: "CloseApproach_init parse_datetime (PStr ''433'') PNone (PStr ''0.15'') (PStr ''fast'')
       = Inl ValueError"
    by (rule mp)
  from t f4 f5 have tf5: "init_time parse_datetime PNone = Inr None
      \<and> float_py (PStr ''0.15'') = Inr (Fin (3 / 20)) \<and> float_py (PStr ''5.2'') = Inr (Fin (26 / 5))"
    by simp
  from c [THEN conjunct2, THEN conjunct2, THEN conjunct2, THEN conjunct2, THEN conjunct2,
          THEN conjunct2, THEN conjunct2, THEN conjunct1] tf5
  have 8: "\<exists>ca. CloseApproach_init parse_datetime (PStr ''433'') PNone (PStr ''0.15'') (PStr ''5.2'')
              = Inr ca \<and> distance ca = Fin (3 / 20) \<and> velocity ca = Fin (26 / 5)"
    by (rule mp)
  from 1 2 3 4 5 6 7 8 show ?thesis
    by (intro conjI)
qed

text \<open>
  Against C1 as stated: the diameter \<^verbatim>\<open>abc\<close>, and the empty diameter given to the
  constructor itself, raise \<^verbatim>\<open>ValueError\<close> instead of yielding NaN; \<open>load_neos\<close> passes the
  error on; the distance \<^verbatim>\<open>abc\<close> and the velocity \<^verbatim>\<open>fast\<close> raise instead of yielding 0.0.
\<close>

theorem malformed_numeric_raises:
  "NearEarthObject_init False ''433'' (Some ''Eros'') (PStr ''abc'') = Inl ValueError
   \<and> NearEarthObject_init False ''433'' (Some ''Eros'') (PStr []) = Inl ValueError
   \<and> load_neos [map_of [(''pdes'', ''433''), (''name'', ''Eros''), (''diameter'', ''abc''),
                         (''pha'', ''N'')]] = Inl ValueError
   \<and> CloseApproach_init parse_datetime (PStr ''433'') PNone (PStr ''abc'') (PStr ''5.2'')
       = Inl ValueError
   \<and> CloseApproach_init parse_datetime (PStr ''433'') PNone (PStr ''0.15'') (PStr ''fast'')
       = Inl ValueError"
  by (simp add: load_eval float_eval)

subsection \<open>C2: blank designations\<close>




subsection \<open>C3: timestamps\<close>

text \<open>
  Claim C3, as the code has it. When the raw timestamp is falsy (\<^verbatim>\<open>None\<close> or the empty
  text) the parser is not consulted: the time is null, the outcome is the same under every
  parser, and construction succeeds as soon as the distance and the velocity convert. When
  the raw timestamp is truthy the parser is called on it: what it raises is raised by the
  constructor, and what it returns becomes the time.
\<close>

theorem timestamp_handling:
  "(\<not> truthy cd \<longrightarrow>
      init_time parse cd = Inr None
      \<and> CloseApproach_init parse des cd dst v_rel = CloseApproach_init parse' des cd dst v_rel
      \<and> (float_py dst = Inr x \<and> float_py v_rel = Inr y \<longrightarrow>
           CloseApproach_init parse des cd dst v_rel
             = Inr \<lparr>designation_ref = des, time = None, distance = x, velocity = y,
                    neo = None\<rparr>))
   \<and> (truthy cd \<and> parse cd = Inl e \<longrightarrow> CloseApproach_init parse des cd dst v_rel = Inl e)
   \<and> (truthy cd \<and> parse cd = Inr t \<and> CloseApproach_init parse des cd dst v_rel = Inr ca \<longrightarrow>
        time ca = Some t)"
proof (intro conjI impI)
  assume "\<not> truthy cd"
  then show "init_time parse cd = Inr None"
    by (simp add: init_time_def)
next
  assume "\<not> truthy cd"
  then show "CloseApproach_init parse des cd dst v_rel = CloseApproach_init parse' des cd dst v_rel"
    by (simp add: CloseApproach_init_def init_time_def)
next
  assume "\<not> truthy cd" and "float_py dst = Inr x \<and> float_py v_rel = Inr y"
  then show "CloseApproach_init parse des cd dst v_rel
             = Inr \<lparr>designation_ref = des, time = None, distance = x, velocity = y,
                    neo = None\<rparr>"
    by (simp add: CloseApproach_init_def init_time_def)
next
  assume "truthy cd \<and> parse cd = Inl e"
  then show "CloseApproach_init parse des cd dst v_rel = Inl e"
    by (simp add: CloseApproach_init_def init_time_def)
next
  assume a: "truthy cd \<and> parse cd = Inr t \<and> CloseApproach_init parse des cd dst v_rel = Inr ca"
  then have "init_time parse cd = Inr (Some t)"
    by (simp add: init_time_def)
  with a show "time ca = Some t"
    by (auto simp: CloseApproach_init_def bind_r_eq_Inr)
qed

text \<open>
  The theorem at concrete inputs: a null timestamp under a parser that rejects everything,
  a malformed timestamp, and a well-formed one.
\<close>

theorem timestamp_handling_witness:
  "CloseApproach_init reject_all (PStr ''2020 AB'') PNone (PStr ''0.5'') (PStr ''10'')
     = Inr undated_approach
   \<and> CloseApproach_init parse_datetime (PStr ''433'') (PStr ''1900-13-01 12:00'') (PStr ''0.15'')
       (PStr ''5.2'') = Inl ValueError
   \<and> time eros_approach = Some (DateTime 1900 1 1 12 0)"
proof -
  have f1: "float_py (PStr ''0.5'') = Inr (Fin (1 / 2))" by (simp add: float_eval)
  have f2: "float_py (PStr ''10'') = Inr (Fin 10)" by (simp add: float_eval)
  have p1: "parse_datetime (PStr ''1900-13-01 12:00'') = Inl ValueError"
    by (simp add: datetime_eval float_eval)
  have p2: "parse_datetime (PStr ''1900-01-01 12:00'') = Inr (DateTime 1900 1 1 12 0)"
    by (simp add: datetime_eval float_eval)
  have n: "\<not> truthy PNone" by simp
  have s: "truthy (PStr ''1900-13-01 12:00'')" "truthy (PStr ''1900-01-01 12:00'')" by simp_all
  note a = timestamp_handling
    [where cd = PNone and parse = reject_all and des = "PStr ''2020 AB''"
       and dst = "PStr ''0.5''" and v_rel = "PStr ''10''" and x = "Fin (1 / 2)" and y = "Fin 10"]
  note b = timestamp_handling
    [where cd = "PStr ''1900-13-01 12:00''" and parse = parse_datetime and e = ValueError
       and des = "PStr ''433''" and dst = "PStr ''0.15''" and v_rel = "PStr ''5.2''"]
  note c = timestamp_handling
    [where cd = "PStr ''1900-01-01 12:00''" and parse = parse_datetime
       and t = "DateTime 1900 1 1 12 0" and ca = eros_approach
       and des = "PStr ''433''" and dst = "PStr ''0.15''" and v_rel = "PStr ''5.2''"]
  have 1: "CloseApproach_init reject_all (PStr ''2020 AB'') PNone (PStr ''0.5'') (PStr ''10'')
     = Inr undated_approach"
    using a n f1 f2 unfolding undated_approach_def by blast
  have 2: "CloseApproach_init parse_datetime (PStr ''433'') (PStr ''1900-13-01 12:00'')
             (PStr ''0.15'') (PStr ''5.2'') = Inl ValueError"
    using b s(1) p1 by blast
  have 3: "time eros_approach = Some (DateTime 1900 1 1 12 0)"
    using c s(2) p2 init_eros_approach by blast
  from 1 2 3 show ?thesis by blast
qed

text \<open>
  Against C3 as stated: with the parser of the helper section, which fails on malformed
  input, the timestamp \<^verbatim>\<open>not a date\<close> makes the constructor raise.
\<close>

theorem malformed_timestamp_raises:
  "CloseApproach_init parse_datetime (PStr ''433'') (PStr ''not a date'') (PStr ''0.15'')
     (PStr ''5.2'') = Inl ValueError"
  by (simp add: load_eval datetime_eval float_eval)

subsection \<open>C4: the keys of a serialized close approach\<close>

text \<open>
  Claim C4. For a close approach whose \<open>neo\<close> is set, \<open>serialize(True)\<close> returns a
  dictionary of seven distinct keys, the approach's three together with the NEO's four,
  none of them \<^verbatim>\<open>neo\<close>; \<open>serialize(False)\<close> returns the approach's three keys followed by
  \<^verbatim>\<open>neo\<close>, whose value is the NEO's serialized dictionary. When \<open>neo\<close> is unset, \<open>serialize\<close>
  raises.
\<close>

theorem serialize_keys:
  "(neo ca = Some n \<longrightarrow>
      (\<exists>d. CloseApproach_serialize fmt_dt True ca = Inr d
            \<and> set (map fst d) = {''datetime_utc'', ''distance_au'', ''velocity_km_s''}
                                 \<union> set (map fst (NearEarthObject_serialize n))
            \<and> distinct (map fst d) \<and> length d = 7
            \<and> ''neo'' \<notin> set (map fst d))
      \<and> (\<exists>d. CloseApproach_serialize fmt_dt False ca = Inr d
            \<and> map fst d = [''datetime_utc'', ''distance_au'', ''velocity_km_s'', ''neo'']
            \<and> map_of d ''neo'' = Some (PDict (NearEarthObject_serialize n))))
   \<and> map fst (NearEarthObject_serialize n)
        = [''designation'', ''name'', ''diameter_km'', ''potentially_hazardous'']
   \<and> (neo ca = None \<longrightarrow> CloseApproach_serialize fmt_dt isCsv ca = Inl AttributeError)"
proof (intro conjI impI)
  assume a: "neo ca = Some n"
  show "\<exists>d. CloseApproach_serialize fmt_dt True ca = Inr d
            \<and> set (map fst d) = {''datetime_utc'', ''distance_au'', ''velocity_km_s''}
                                 \<union> set (map fst (NearEarthObject_serialize n))
            \<and> distinct (map fst d) \<and> length d = 7
            \<and> ''neo'' \<notin> set (map fst d)"
    unfolding serialize_flat [OF a] NearEarthObject_serialize_keys by auto
  show "\<exists>d. CloseApproach_serialize fmt_dt False ca = Inr d
            \<and> map fst d = [''datetime_utc'', ''distance_au'', ''velocity_km_s'', ''neo'']
            \<and> map_of d ''neo'' = Some (PDict (NearEarthObject_serialize n))"
    unfolding serialize_nested [OF a] by simp
next
  show "map fst (NearEarthObject_serialize n)
        = [''designation'', ''name'', ''diameter_km'', ''potentially_hazardous'']"
    by (rule NearEarthObject_serialize_keys)
next
  assume "neo ca = None"
  then show "CloseApproach_serialize fmt_dt isCsv ca = Inl AttributeError"
    by (rule serialize_unlinked)
qed

text \<open>The theorem on the linked sample approach and on the unlinked one.\<close>

theorem serialize_keys_witness:
  "(\<exists>d. CloseApproach_serialize format_datetime True linked_approach = Inr d
        \<and> set (map fst d) = {''datetime_utc'', ''distance_au'', ''velocity_km_s''}
                             \<union> set (map fst (NearEarthObject_serialize eros))
        \<and> distinct (map fst d) \<and> length d = 7 \<and> ''neo'' \<notin> set (map fst d))
   \<and> (\<exists>d. CloseApproach_serialize format_datetime False linked_approach = Inr d
        \<and> map fst d = [''datetime_utc'', ''distance_au'', ''velocity_km_s'', ''neo'']
        \<and> map_of d ''neo'' = Some (PDict (NearEarthObject_serialize eros)))
   \<and> CloseApproach_serialize format_datetime True eros_approach = Inl AttributeError
   \<and> CloseApproach_serialize format_datetime False eros_approach = Inl AttributeError"
proof -
  have l: "neo linked_approach = Some eros"
    by (simp add: linked_approach_def)
  have u: "neo eros_approach = None"
    by (simp add: eros_approach_def)
  from serialize_keys [of linked_approach eros format_datetime] l
  have 1: "(\<exists>d. CloseApproach_serialize format_datetime True linked_approach = Inr d
        \<and> set (map fst d) = {''datetime_utc'', ''distance_au'', ''velocity_km_s''}
                             \<union> set (map fst (NearEarthObject_serialize eros))
        \<and> distinct (map fst d) \<and> length d = 7 \<and> ''neo'' \<notin> set (map fst d))
   \<and> (\<exists>d. CloseApproach_serialize format_datetime False linked_approach = Inr d
        \<and> map fst d = [''datetime_utc'', ''distance_au'', ''velocity_km_s'', ''neo'']
        \<and> map_of d ''neo'' = Some (PDict (NearEarthObject_serialize eros)))"
    by blast
  from serialize_keys [of eros_approach _ format_datetime True] u
  have 2: "CloseApproach_serialize format_datetime True eros_approach = Inl AttributeError"
    by blast
  from serialize_keys [of eros_approach _ format_datetime False] u
  have 3: "CloseApproach_serialize format_datetime False eros_approach = Inl AttributeError"
    by blast
  from 1 2 3 show ?thesis by blast
qed

subsection \<open>C5: the name\<close>

text \<open>
  Claim C5, as the code has it. The normalisation of a falsy name to \<^verbatim>\<open>None\<close> is done by
  \<open>load_neos\<close> (\<^verbatim>\<open>neo.get("name") or None\<close>), not by the constructor: every object that
  \<open>load_neos\<close> returns has the name of its row when that is present and non-empty and has
  no name otherwise, so its name is never the empty text. The constructor stores the name
  it is given.
\<close>

theorem name_normalised_by_load_neos:
  "(load_neos neos = Inr ns \<longrightarrow>
      length ns = length neos
      \<and> (\<forall>i < length neos. name (ns ! i) = get_or_None (neos ! i) ''name''
                            \<and> name (ns ! i) \<noteq> Some []))
   \<and> (NearEarthObject_init pha pdes nm d = Inr n \<longrightarrow> name n = nm)"
proof (rule conjI)
  show "load_neos neos = Inr ns \<longrightarrow>
      length ns = length neos
      \<and> (\<forall>i < length neos. name (ns ! i) = get_or_None (neos ! i) ''name''
                            \<and> name (ns ! i) \<noteq> Some [])"
  proof
    assume a: "load_neos neos = Inr ns"
    have "name (ns ! i) = get_or_None (neos ! i) ''name''" if "i < length neos" for i
      using load_neos_nth(2) [OF a that] by (rule load_neos_row_fields(3))
    then show "length ns = length neos
      \<and> (\<forall>i < length neos. name (ns ! i) = get_or_None (neos ! i) ''name''
                            \<and> name (ns ! i) \<noteq> Some [])"
      using load_neos_nth(1) [OF a] by (simp add: get_or_None_nonempty)
  qed
next
  show "NearEarthObject_init pha pdes nm d = Inr n \<longrightarrow> name n = nm"
    by (auto simp: NearEarthObject_init_Inr)
qed

text \<open>
  The theorem on the four sample rows, two of which have an empty name cell, and on the
  constructor given the name \<^verbatim>\<open>Eros\<close>.
\<close>

theorem name_normalised_by_load_neos_witness:
  "load_neos [eros_row, unnamed_row, lower_y_row, blank_row] = Inr [eros, unnamed, lower_y, blank]
   \<and> name unnamed = get_or_None unnamed_row ''name'' \<and> name unnamed \<noteq> Some []
   \<and> unnamed_row ''name'' = Some [] \<and> name unnamed = None
   \<and> NearEarthObject_init False ''433'' (Some ''Eros'') (PStr ''16.84'') = Inr eros
   \<and> name eros = Some ''Eros''"
proof -
  have c: "NearEarthObject_init False ''433'' (Some ''Eros'') (PStr ''16.84'') = Inr eros"
    by (simp add: eros_def NearEarthObject_init_def float_eval)
  note t = name_normalised_by_load_neos
    [of "[eros_row, unnamed_row, lower_y_row, blank_row]" "[eros, unnamed, lower_y, blank]"
        False "''433''" "Some ''Eros''" "PStr ''16.84''" eros]
  have i: "(1::nat) < length [eros_row, unnamed_row, lower_y_row, blank_row]"
    by simp
  from t load_sample_rows i
  have "name ([eros, unnamed, lower_y, blank] ! 1)
           = get_or_None ([eros_row, unnamed_row, lower_y_row, blank_row] ! 1) ''name''
         \<and> name ([eros, unnamed, lower_y, blank] ! 1) \<noteq> Some []"
    by blast
  then have 1: "name unnamed = get_or_None unnamed_row ''name'' \<and> name unnamed \<noteq> Some []"
    by (simp add: get_or_None_nonempty)
  from t c have 2: "name eros = Some ''Eros''"
    by blast
  have 3: "unnamed_row ''name'' = Some []"
    by (simp add: unnamed_row_def)
  have 4: "name unnamed = None"
    by (simp add: unnamed_def)
  from load_sample_rows 1 2 3 4 c show ?thesis by blast
qed

text \<open>
  Against C5 as stated: the constructor given the empty text as name returns an object
  whose name is the empty text, not null.
\<close>

theorem constructor_keeps_empty_name:
  "NearEarthObject_init False ''433'' (Some []) (PFloat NaN)
     = Inr \<lparr>designation = ''433'', name = Some [], diameter = NaN, hazardous = False,
            approaches = []\<rparr>"
  by (simp add: NearEarthObject_init_def)

subsection \<open>C6: \<open>fullname\<close>\<close>

text \<open>
  Claim C6, as the code has it. \<open>fullname\<close> tests the truth value of the name: it equals
  the designation, a space and the name exactly when the name is neither null nor the
  empty text, and equals the designation otherwise. Calling it leaves the object as it was.
\<close>

theorem fullname_cases:
  "(fullname n = designation_name n \<longleftrightarrow> name n \<noteq> None \<and> name n \<noteq> Some [])
   \<and> (name n = None \<or> name n = Some [] \<longrightarrow> fullname n = designation n)
   \<and> snd (neo_call fmt rs Op_fullname n) = n"
  by (cases "name n") (auto simp: fullname_def designation_name_def)

text \<open>The theorem on a named and on an unnamed sample object.\<close>

theorem fullname_cases_witness:
  "fullname eros = designation_name eros \<and> designation_name eros = ''433 Eros''
   \<and> name unnamed = None \<and> fullname unnamed = ''2020 AB''"
proof -
  have e: "name eros \<noteq> None \<and> name eros \<noteq> Some []"
    by (simp add: eros_def)
  have u: "name unnamed = None"
    by (simp add: unnamed_def)
  from fullname_cases [of eros] e
  have 1: "fullname eros = designation_name eros" by blast
  from fullname_cases [of unnamed] u
  have 2: "fullname unnamed = designation unnamed" by blast
  from 1 2 u show ?thesis
    by (simp add: designation_name_def eros_def unnamed_def)
qed

text \<open>
  Against C6 as stated: on an object whose name is the empty text the name is non-null,
  yet \<open>fullname\<close> is the bare designation \<^verbatim>\<open>433\<close> and not \<^verbatim>\<open>433\<close> followed by a space.
\<close>

theorem fullname_empty_name:
  "name \<lparr>designation = ''433'', name = Some [], diameter = NaN, hazardous = False,
         approaches = []\<rparr> \<noteq> None
   \<and> fullname \<lparr>designation = ''433'', name = Some [], diameter = NaN, hazardous = False,
         approaches = []\<rparr> = ''433''
   \<and> designation_name \<lparr>designation = ''433'', name = Some [], diameter = NaN, hazardous = False,
         approaches = []\<rparr> = ''433 ''
   \<and> fullname \<lparr>designation = ''433'', name = Some [], diameter = NaN, hazardous = False,
         approaches = []\<rparr>
       \<noteq> designation_name \<lparr>designation = ''433'', name = Some [], diameter = NaN,
            hazardous = False, approaches = []\<rparr>"
  by (simp add: fullname_def designation_name_def)

subsection \<open>C7: the hazard flag\<close>

text \<open>
  Claim C7. Every object that \<open>load_neos\<close> returns is hazardous exactly when the \<^verbatim>\<open>pha\<close> cell
  of its row is the one-character text \<^verbatim>\<open>Y\<close>.
\<close>

theorem hazardous_iff_Y:
  "load_neos neos = Inr ns \<Longrightarrow>
     length ns = length neos
     \<and> (\<forall>i < length neos. hazardous (ns ! i) = ((neos ! i) ''pha'' = Some ''Y''))"
  using load_neos_nth [of neos ns] load_neos_row_fields(2) by blast

text \<open>The theorem on four sample rows whose flags are \<^verbatim>\<open>N\<close>, \<^verbatim>\<open>Y\<close>, \<^verbatim>\<open>y\<close> and empty.\<close>

theorem hazardous_iff_Y_witness:
  "load_neos [eros_row, unnamed_row, lower_y_row, blank_row] = Inr [eros, unnamed, lower_y, blank]
   \<and> hazardous eros = (eros_row ''pha'' = Some ''Y'')
   \<and> hazardous unnamed = (unnamed_row ''pha'' = Some ''Y'')
   \<and> hazardous lower_y = (lower_y_row ''pha'' = Some ''Y'')
   \<and> hazardous blank = (blank_row ''pha'' = Some ''Y'')
   \<and> unnamed_row ''pha'' = Some ''Y'' \<and> hazardous unnamed = True
   \<and> lower_y_row ''pha'' = Some ''y'' \<and> hazardous lower_y = False
   \<and> blank_row ''pha'' = Some [] \<and> hazardous blank = False"
proof -
  note t = hazardous_iff_Y [OF load_sample_rows]
  have i: "(0::nat) < length [eros_row, unnamed_row, lower_y_row, blank_row]"
    "(1::nat) < length [eros_row, unnamed_row, lower_y_row, blank_row]"
    "(2::nat) < length [eros_row, unnamed_row, lower_y_row, blank_row]"
    "(3::nat) < length [eros_row, unnamed_row, lower_y_row, blank_row]"
    by simp_all
  from t i(1) have "hazardous ([eros, unnamed, lower_y, blank] ! 0)
      = (([eros_row, unnamed_row, lower_y_row, blank_row] ! 0) ''pha'' = Some ''Y'')"
    by blast
  then have 0: "hazardous eros = (eros_row ''pha'' = Some ''Y'')"
    by simp
  from t i(2) have "hazardous ([eros, unnamed, lower_y, blank] ! 1)
      = (([eros_row, unnamed_row, lower_y_row, blank_row] ! 1) ''pha'' = Some ''Y'')"
    by blast
  then have 1: "hazardous unnamed = (unnamed_row ''pha'' = Some ''Y'')"
    by simp
  from t i(3) have "hazardous ([eros, unnamed, lower_y, blank] ! 2)
      = (([eros_row, unnamed_row, lower_y_row, blank_row] ! 2) ''pha'' = Some ''Y'')"
    by blast
  then have 2: "hazardous lower_y = (lower_y_row ''pha'' = Some ''Y'')"
    by simp
  from t i(4) have "hazardous ([eros, unnamed, lower_y, blank] ! 3)
      = (([eros_row, unnamed_row, lower_y_row, blank_row] ! 3) ''pha'' = Some ''Y'')"
    by blast
  then have 3: "hazardous blank = (blank_row ''pha'' = Some ''Y'')"
    by simp
  have 4: "unnamed_row ''pha'' = Some ''Y''" "lower_y_row ''pha'' = Some ''y''"
    "blank_row ''pha'' = Some []"
    by (simp_all add: unnamed_row_def lower_y_row_def blank_row_def)
  have 5: "hazardous unnamed = True" "hazardous lower_y = False" "hazardous blank = False"
    by (simp_all add: unnamed_def lower_y_def blank_def)
  from load_sample_rows 0 1 2 3 4 5 show ?thesis by blast
qed

subsection \<open>C8: the positions read from a close-approach record\<close>

text \<open>
  Claim C8. \<open>load_approaches\<close> returns a list exactly when the \<^verbatim>\<open>data\<close> entry is present and
  each record, in order, has at least eight elements and the constructor succeeds on its
  elements 0, 3, 4 and 7, taken as designation, time, distance and velocity; the result
  then holds, position by position, the object constructed from each record.
\<close>

theorem load_approaches_positions:
  "load_approaches parse cas = Inr res \<longleftrightarrow>
     (\<exists>recs. cas ''data'' = Some recs
        \<and> list_all2 (\<lambda>ca a. 8 \<le> length ca
              \<and> CloseApproach_init parse (ca ! 0) (ca ! 3) (ca ! 4) (ca ! 7) = Inr a) recs res)"
proof (cases "cas ''data''")
  case None
  then show ?thesis by (simp add: load_approaches_def getitem_def)
next
  case (Some recs)
  then show ?thesis
    by (simp add: load_approaches_def getitem_def load_approaches_loop_Inr
        load_approaches_row_Inr)
qed

text \<open>The theorem on two sample records, one of eleven elements and one of eight.\<close>

theorem load_approaches_positions_witness:
  "load_approaches parse_datetime (map_of [(''data'', [eros_record, undated_record])])
     = Inr [eros_approach, undated_approach]"
proof -
  have "list_all2 (\<lambda>ca a. 8 \<le> length ca
              \<and> CloseApproach_init parse_datetime (ca ! 0) (ca ! 3) (ca ! 4) (ca ! 7) = Inr a)
          [eros_record, undated_record] [eros_approach, undated_approach]"
    using init_eros_approach init_undated_approach
    by (simp add: eros_record_def undated_record_def)
  then show ?thesis
    by (simp add: load_approaches_positions)
qed

subsection \<open>C9: the designation is not reassigned\<close>

text \<open>
  Claim C9. When the statements of \<^verbatim>\<open>__init__\<close> have run without raising, the object's
  \<^verbatim>\<open>designation\<close> attribute is the argument \<^verbatim>\<open>pdes\<close>, and it is still that value after
  running the body of any one of \<open>fullname\<close>, \<open>__str__\<close>, \<open>__repr__\<close> and \<open>serialize\<close>, and
  after running any sequence of them, whether or not a call raises.
\<close>

theorem designation_unchanged:
  "construct B pha pdes nm d = Inr s \<Longrightarrow>
     s ''designation'' = Some pdes
     \<and> snd (invoke B op s) ''designation'' = Some pdes
     \<and> invoke_all B ops s ''designation'' = Some pdes"
  by (auto simp: construct_Inr invoke_same invoke_all_same)

text \<open>The theorem on the sample object and a sequence of all four operations.\<close>

theorem designation_unchanged_witness:
  "construct plain_builtins (PBool False) (PStr ''433'') (PStr ''Eros'') (PStr ''16.84'')
     = Inr (dict_of eros)
   \<and> dict_of eros ''designation'' = Some (PStr ''433'')
   \<and> snd (invoke plain_builtins Op_str (dict_of eros)) ''designation'' = Some (PStr ''433'')
   \<and> invoke_all plain_builtins [Op_fullname, Op_str, Op_repr, Op_serialize] (dict_of eros)
        ''designation'' = Some (PStr ''433'')"
proof -
  have i: "NearEarthObject_init False ''433'' (Some ''Eros'') (PStr ''16.84'') = Inr eros"
    by (simp add: eros_def NearEarthObject_init_def float_eval)
  from construct_agrees [OF i, of plain_builtins]
  have c: "construct plain_builtins (PBool False) (PStr ''433'') (PStr ''Eros'') (PStr ''16.84'')
             = Inr (dict_of eros)"
    by simp
  note t = designation_unchanged
    [OF c, of Op_str "[Op_fullname, Op_str, Op_repr, Op_serialize]"]
  from t have 1: "dict_of eros ''designation'' = Some (PStr ''433'')"
    by (rule conjunct1)
  from t have 2: "snd (invoke plain_builtins Op_str (dict_of eros)) ''designation''
                    = Some (PStr ''433'')"
    by (rule conjunct2 [THEN conjunct1])
  from t have 3: "invoke_all plain_builtins [Op_fullname, Op_str, Op_repr, Op_serialize]
                    (dict_of eros) ''designation'' = Some (PStr ''433'')"
    by (rule conjunct2 [THEN conjunct2])
  from c 1 2 3 show ?thesis
    by (intro conjI)
qed

subsection \<open>C10: an unknown diameter in the serialized NEO\<close>

text \<open>
  Claim C10. \<open>serialize\<close> puts the diameter under the key \<^verbatim>\<open>diameter_km\<close> as the float it
  is; for an object of unknown diameter the entry is present and its value is NaN.
  \<open>serialize\<close> has no failing branch.
\<close>

theorem serialize_diameter:
  "map_of (NearEarthObject_serialize n) ''diameter_km'' = Some (PFloat (diameter n))
   \<and> (diameter n = NaN \<longrightarrow>
        map_of (NearEarthObject_serialize n) ''diameter_km'' = Some (PFloat NaN))"
  by (simp add: NearEarthObject_serialize_def)

text \<open>The theorem on the object loaded from the row with an empty diameter cell.\<close>

theorem serialize_diameter_witness:
  "load_neos_row unnamed_row = Inr unnamed \<and> diameter unnamed = NaN
   \<and> map_of (NearEarthObject_serialize unnamed) ''diameter_km'' = Some (PFloat NaN)"
proof -
  have d: "diameter unnamed = NaN"
    by (simp add: unnamed_def)
  from serialize_diameter [of unnamed] d
  have "map_of (NearEarthObject_serialize unnamed) ''diameter_km'' = Some (PFloat NaN)"
    by blast
  with load_unnamed_row d show ?thesis by blast
qed

end
